theory Spec2Isabelle
  imports Complex_Main "HOL-Library.Word"
begin

section \<open>Command service of Standard-of-Iron: data model\<close>

text \<open>
  This theory embeds \<^verbatim>\<open>src/game/systems/command_service.cpp\<close>.
  Conventions of the embedding:
  \<^item> \<^verbatim>\<open>float\<close> values are modelled as \<^typ>\<open>real\<close>: comparisons and arithmetic are the
    exact ones, rounding of IEEE arithmetic is not modelled;
  \<^item> \<^verbatim>\<open>int\<close> grid coordinates are modelled as \<^typ>\<open>int\<close> (grid cells are far from the
    range where the C++ arithmetic would overflow);
  \<^item> \<^verbatim>\<open>std::uint64_t\<close> request ids are \<^typ>\<open>64 word\<close>, \<^verbatim>\<open>EntityID\<close>
    (\<^verbatim>\<open>unsigned int\<close>) is \<^typ>\<open>32 word\<close>; \<^verbatim>\<open>fetch_add\<close> wraps;
  \<^item> the static members of \<^verbatim>\<open>CommandService\<close> and the \<^verbatim>\<open>World\<close> are the fields of one
    state record that every operation takes and returns;
  \<^item> components are looked up by entity id in the world at each use, which is what the
    pointers held by the C++ code denote (no entity or component is destroyed by this code,
    except the attack-target component, which is not held across a removal).
\<close>

type_synonym EntityID = "32 word"
type_synonym RequestId = "64 word"

record QVector3D =
  vec_x :: real
  vec_y :: real
  vec_z :: real

definition QVector3D :: "real \<Rightarrow> real \<Rightarrow> real \<Rightarrow> QVector3D" where
  "QVector3D a b c = \<lparr>vec_x = a, vec_y = b, vec_z = c\<rparr>"

definition vsub :: "QVector3D \<Rightarrow> QVector3D \<Rightarrow> QVector3D" where
  "vsub a b = QVector3D (vec_x a - vec_x b) (vec_y a - vec_y b) (vec_z a - vec_z b)"

definition vadd :: "QVector3D \<Rightarrow> QVector3D \<Rightarrow> QVector3D" where
  "vadd a b = QVector3D (vec_x a + vec_x b) (vec_y a + vec_y b) (vec_z a + vec_z b)"

definition vscale :: "QVector3D \<Rightarrow> real \<Rightarrow> QVector3D" where
  "vscale a k = QVector3D (vec_x a * k) (vec_y a * k) (vec_z a * k)"

definition vdiv :: "QVector3D \<Rightarrow> real \<Rightarrow> QVector3D" where
  "vdiv a k = QVector3D (vec_x a / k) (vec_y a / k) (vec_z a / k)"

definition lengthSquared :: "QVector3D \<Rightarrow> real" where
  "lengthSquared a = vec_x a * vec_x a + vec_y a * vec_y a + vec_z a * vec_z a"

definition vlength :: "QVector3D \<Rightarrow> real" where
  "vlength a = sqrt (lengthSquared a)"

record Point =
  pt_x :: int
  pt_y :: int

record MoveOptions =
  groupMove :: bool
  clearAttackIntent :: bool
  allowDirectFallback :: bool

record PendingPathRequest =
  entity_id :: EntityID
  target :: QVector3D
  options :: MoveOptions
  groupMembers :: "EntityID list"
  groupTargets :: "QVector3D list"

text \<open>
  The components are declared in \<^verbatim>\<open>core/component.h\<close>, which is not part of the sources
  at hand; each record lists the fields that \<^verbatim>\<open>command_service.cpp\<close> reads or writes,
  under the names it uses.
\<close>

record HoldModeComponent =
  active :: bool
  exitCooldown :: real
  standUpDuration :: real

record AttackComponent =
  inMeleeLock :: bool
  atk_range :: real
  canRanged :: bool
  meleeRange :: real

record TransformComponent =
  position :: QVector3D
  scale :: QVector3D

record MovementComponent =
  goalX :: real
  goalY :: real
  target_x :: real
  target_y :: real
  hasTarget :: bool
  path :: "(real \<times> real) list"
  pathPending :: bool
  pendingRequestId :: RequestId
  vx :: real
  vz :: real
  timeSinceLastPathRequest :: real
  lastGoalX :: real
  lastGoalY :: real

record AttackTargetComponent =
  target_id :: EntityID
  shouldChase :: bool

text \<open>
  Of the enumeration \<^verbatim>\<open>Game::Units::SpawnType\<close> the code names \<^verbatim>\<open>Archer\<close> and
  \<^verbatim>\<open>MountedKnight\<close>; the other enumerators are kept apart by a number.
\<close>

datatype SpawnType = Archer | MountedKnight | OtherSpawnType nat

record UnitComponent =
  speed :: real
  spawn_type :: SpawnType

record Entity =
  holdMode :: "HoldModeComponent option"
  attack :: "AttackComponent option"
  transform :: "TransformComponent option"
  movement :: "MovementComponent option"
  attackTarget :: "AttackTargetComponent option"
  unit :: "UnitComponent option"
  building :: bool

text \<open>
  Modelled from the spec: the class \<^verbatim>\<open>Pathfinding\<close> is not part of the sources at hand.
  The spec gives its contract: \<^verbatim>\<open>setGridOffset(x, z)\<close>, \<^verbatim>\<open>isWalkable(cellX, cellZ)\<close>
  returning a boolean, and the fire-and-forget \<^verbatim>\<open>submitPathRequest(requestId, startCell,
  endCell)\<close>. The model keeps the offset, takes the walkability test as a function and
  records every submitted request, in order, in \<open>submitted\<close>.
\<close>

record Pathfinding =
  gridOffsetX :: real
  gridOffsetZ :: real
  isWalkable :: "int \<Rightarrow> int \<Rightarrow> bool"
  submitted :: "(RequestId \<times> Point \<times> Point) list"

definition submitPathRequest :: "RequestId \<Rightarrow> Point \<Rightarrow> Point \<Rightarrow> Pathfinding \<Rightarrow> Pathfinding" where
  "submitPathRequest rid startp endp pf = pf\<lparr>submitted := submitted pf @ [(rid, startp, endp)]\<rparr>"

record PathResult =
  request_id :: RequestId
  result_path :: "Point list"

text \<open>
  The constants \<^verbatim>\<open>DIRECT_PATH_THRESHOLD\<close> and \<^verbatim>\<open>WAYPOINT_SKIP_THRESHOLD_SQ\<close>, the
  default-constructed \<^verbatim>\<open>MovementComponent\<close> and the default-constructed
  \<^verbatim>\<open>MoveOptions\<close> are declared in headers that are not part of the sources at hand.
  They are parameters of the model.
\<close>

record Config =
  DIRECT_PATH_THRESHOLD :: int
  WAYPOINT_SKIP_THRESHOLD_SQ :: real
  newMovementComponent :: MovementComponent
  defaultMoveOptions :: MoveOptions

record Sim =
  world :: "EntityID \<rightharpoonup> Entity"
  s_pathfinder :: "Pathfinding option"
  s_pendingRequests :: "RequestId \<rightharpoonup> PendingPathRequest"
  s_entityToRequest :: "EntityID \<rightharpoonup> RequestId"
  s_nextRequestId :: RequestId

definition same_target_threshold_sq :: real where
  "same_target_threshold_sq = 1 / 100"

definition pathfinding_request_cooldown :: real where
  "pathfinding_request_cooldown = 1"

definition target_movement_threshold_sq :: real where
  "target_movement_threshold_sq = 4"

section \<open>Request ids\<close>

text \<open>\<^verbatim>\<open>s_nextRequestId.fetch_add(1)\<close>: returns the counter and increments it, modulo \<open>2^64\<close>.\<close>

definition fetch_add :: "RequestId \<Rightarrow> RequestId \<times> RequestId" where
  "fetch_add c = (c, c + 1)"

text \<open>The ids returned by \<open>n\<close> successive allocations from counter value \<open>c\<close>, and the counter left.\<close>

fun allocations :: "nat \<Rightarrow> RequestId \<Rightarrow> RequestId list \<times> RequestId" where
  "allocations 0 c = ([], c)"
| "allocations (Suc n) c =
     (case fetch_add c of (rid, c') \<Rightarrow>
        (case allocations n c' of (ids, c'') \<Rightarrow> (rid # ids, c'')))"

section \<open>Grid coordinate mapper\<close>

text \<open>\<^verbatim>\<open>std::round\<close> rounds to the nearest integer, halfway cases away from zero.\<close>

definition cround :: "real \<Rightarrow> int" where
  "cround v = (if 0 \<le> v then \<lfloor>v + 1 / 2\<rfloor> else \<lceil>v - 1 / 2\<rceil>)"

definition worldToGrid :: "Pathfinding option \<Rightarrow> real \<Rightarrow> real \<Rightarrow> Point" where
  "worldToGrid pfo world_x world_z =
     (case pfo of
        Some pf \<Rightarrow> \<lparr>pt_x = cround (world_x - gridOffsetX pf), pt_y = cround (world_z - gridOffsetZ pf)\<rparr>
      | None \<Rightarrow> \<lparr>pt_x = cround world_x, pt_y = cround world_z\<rparr>)"

definition gridToWorld :: "Pathfinding option \<Rightarrow> Point \<Rightarrow> QVector3D" where
  "gridToWorld pfo gridPos =
     (case pfo of
        Some pf \<Rightarrow> QVector3D (real_of_int (pt_x gridPos) + gridOffsetX pf) 0
                     (real_of_int (pt_y gridPos) + gridOffsetZ pf)
      | None \<Rightarrow> QVector3D (real_of_int (pt_x gridPos)) 0 (real_of_int (pt_y gridPos)))"

section \<open>Pending-request ledger\<close>

text \<open>
  \<^verbatim>\<open>initialize\<close>: a fresh pathfinder with the centring offset, both maps cleared, the
  counter back at 1. The walkability of the fresh grid belongs to the absent class
  \<^verbatim>\<open>Pathfinding\<close> and is the parameter \<open>walk\<close>.
\<close>

definition initialize :: "(int \<Rightarrow> int \<Rightarrow> bool) \<Rightarrow> int \<Rightarrow> int \<Rightarrow> Sim \<Rightarrow> Sim" where
  "initialize walk worldWidth worldHeight s =
     s\<lparr>s_pathfinder := Some \<lparr>gridOffsetX = - (real_of_int worldWidth * (1 / 2) - 1 / 2),
                              gridOffsetZ = - (real_of_int worldHeight * (1 / 2) - 1 / 2),
                              isWalkable = walk, submitted = []\<rparr>,
       s_pendingRequests := Map.empty,
       s_entityToRequest := Map.empty,
       s_nextRequestId := 1\<rparr>"

text \<open>
  The step that \<^verbatim>\<open>clearPendingRequest\<close> (lines 96-102) and the lambda
  \<^verbatim>\<open>remove_entry\<close> of \<^verbatim>\<open>processPathResults\<close> (lines 804-810) both perform: the entry
  of an entity is erased when it points at the given request.
\<close>

definition remove_entry :: "RequestId \<Rightarrow> EntityID \<Rightarrow> (EntityID \<rightharpoonup> RequestId) \<Rightarrow> (EntityID \<rightharpoonup> RequestId)" where
  "remove_entry rid eid e2r = (if e2r eid = Some rid then e2r(eid := None) else e2r)"

fun eraseMembers :: "RequestId \<Rightarrow> EntityID list \<Rightarrow> (EntityID \<rightharpoonup> RequestId) \<Rightarrow> (EntityID \<rightharpoonup> RequestId)" where
  "eraseMembers rid [] e2r = e2r"
| "eraseMembers rid (member_id # rest) e2r = eraseMembers rid rest (remove_entry rid member_id e2r)"

definition clearPendingRequest :: "EntityID \<Rightarrow> Sim \<Rightarrow> Sim" where
  "clearPendingRequest eid s =
     (case s_entityToRequest s eid of
        None \<Rightarrow> s
      | Some rid \<Rightarrow>
          (case s_pendingRequests s rid of
             None \<Rightarrow> s\<lparr>s_entityToRequest := (s_entityToRequest s)(eid := None)\<rparr>
           | Some req \<Rightarrow>
               s\<lparr>s_pendingRequests := (s_pendingRequests s)(rid := None),
                 s_entityToRequest :=
                   eraseMembers rid (groupMembers req) ((s_entityToRequest s)(eid := None))\<rparr>))"

text \<open>
  The ledger invariant of the specification: every entity in the entity-to-request map
  points at a registered request, and every group member of a registered request points
  at that request.
\<close>

definition entriesRegistered :: "Sim \<Rightarrow> bool" where
  "entriesRegistered s =
     (\<forall>eid rid. s_entityToRequest s eid = Some rid \<longrightarrow> s_pendingRequests s rid \<noteq> None)"

definition membersPointBack :: "Sim \<Rightarrow> bool" where
  "membersPointBack s =
     (\<forall>rid req. s_pendingRequests s rid = Some req \<longrightarrow>
        (\<forall>m \<in> set (groupMembers req). s_entityToRequest s m = Some rid))"

definition ledgerConsistent :: "Sim \<Rightarrow> bool" where
  "ledgerConsistent s = (entriesRegistered s \<and> membersPointBack s)"

section \<open>Single-unit move resolver\<close>

definition exitHoldMode :: "Entity \<Rightarrow> Entity" where
  "exitHoldMode e =
     (case holdMode e of
        Some h \<Rightarrow> (if active h
                   then e\<lparr>holdMode := Some (h\<lparr>active := False, exitCooldown := standUpDuration h\<rparr>)\<rparr>
                   else e)
      | None \<Rightarrow> e)"

definition putMovement :: "EntityID \<Rightarrow> MovementComponent \<Rightarrow> Sim \<Rightarrow> Sim" where
  "putMovement uid mv s =
     (case world s uid of
        None \<Rightarrow> s
      | Some e \<Rightarrow> s\<lparr>world := (world s)(uid \<mapsto> e\<lparr>movement := Some mv\<rparr>)\<rparr>)"

text \<open>Lines 163-180: an in-flight request of this entity for (nearly) the same destination.\<close>

definition matchPending ::
  "MoveOptions \<Rightarrow> EntityID \<Rightarrow> real \<Rightarrow> real \<Rightarrow> MovementComponent \<Rightarrow> Sim \<Rightarrow> bool \<times> Sim" where
  "matchPending opts uid tx tz mv s =
     (if pathPending mv then
        (case s_entityToRequest s uid of
           None \<Rightarrow> (False, s)
         | Some rid \<Rightarrow>
             (case s_pendingRequests s rid of
                Some req \<Rightarrow>
                  (let pdx = vec_x (target req) - tx; pdz = vec_z (target req) - tz
                   in if pdx * pdx + pdz * pdz \<le> same_target_threshold_sq
                      then (True, s\<lparr>s_pendingRequests :=
                                      (s_pendingRequests s)(rid \<mapsto> req\<lparr>options := opts\<rparr>)\<rparr>)
                      else (False, s))
              | None \<Rightarrow> (False, s\<lparr>s_entityToRequest := (s_entityToRequest s)(uid := None)\<rparr>)))
      else (False, s))"

text \<open>
  Lines 189-204. The flag \<^verbatim>\<open>should_suppress_path_request\<close> is computed; the only thing the
  code does with the condition is the \<^verbatim>\<open>continue\<close> when the entity has a target or a
  pending request. The flag is not read again.
\<close>

definition should_suppress_path_request :: "real \<Rightarrow> real \<Rightarrow> MovementComponent \<Rightarrow> bool" where
  "should_suppress_path_request tx tz mv =
     (if timeSinceLastPathRequest mv < pathfinding_request_cooldown then
        (let last_goal_dx = lastGoalX mv - tx; last_goal_dz = lastGoalY mv - tz;
             goal_movement_sq = last_goal_dx * last_goal_dx + last_goal_dz * last_goal_dz
         in goal_movement_sq < target_movement_threshold_sq)
      else False)"

definition cooldownContinue :: "real \<Rightarrow> real \<Rightarrow> MovementComponent \<Rightarrow> bool" where
  "cooldownContinue tx tz mv =
     (should_suppress_path_request tx tz mv \<and> (hasTarget mv \<or> pathPending mv))"

text \<open>Lines 206-224: the current target, or the last waypoint, already is the destination.\<close>

definition alreadySatisfied :: "real \<Rightarrow> real \<Rightarrow> MovementComponent \<Rightarrow> bool" where
  "alreadySatisfied tx tz mv =
     (if pathPending mv then False
      else if hasTarget mv \<and> path mv = [] \<and>
              (target_x mv - tx) * (target_x mv - tx) + (target_y mv - tz) * (target_y mv - tz)
                \<le> same_target_threshold_sq
           then True
      else if path mv \<noteq> [] \<and>
              (fst (last (path mv)) - tx) * (fst (last (path mv)) - tx)
                + (snd (last (path mv)) - tz) * (snd (last (path mv)) - tz)
                \<le> same_target_threshold_sq
           then True
      else False)"

text \<open>
  The block that the code writes out three times (lines 232-239, 253-260, 319-326): the
  immediate target becomes the destination, path and pending state are cleared.
\<close>

definition snapToTarget :: "real \<Rightarrow> real \<Rightarrow> MovementComponent \<Rightarrow> MovementComponent" where
  "snapToTarget tx tz mv =
     mv\<lparr>target_x := tx, target_y := tz, hasTarget := True, path := [],
        pathPending := False, pendingRequestId := 0, vx := 0, vz := 0\<rparr>"

text \<open>Lines 268-288: an existing ledger entry of the entity is refreshed or superseded.\<close>

definition supersedeExisting :: "MoveOptions \<Rightarrow> EntityID \<Rightarrow> real \<Rightarrow> real \<Rightarrow> Sim \<Rightarrow> bool \<times> Sim" where
  "supersedeExisting opts uid tx tz s =
     (case s_entityToRequest s uid of
        None \<Rightarrow> (False, s)
      | Some rid \<Rightarrow>
          (case s_pendingRequests s rid of
             Some req \<Rightarrow>
               (let dx = vec_x (target req) - tx; dz = vec_z (target req) - tz
                in if dx * dx + dz * dz \<le> same_target_threshold_sq
                   then (True, s\<lparr>s_pendingRequests :=
                                   (s_pendingRequests s)(rid \<mapsto> req\<lparr>options := opts\<rparr>)\<rparr>)
                   else (False, s\<lparr>s_pendingRequests := (s_pendingRequests s)(rid := None),
                                  s_entityToRequest := (s_entityToRequest s)(uid := None)\<rparr>))
           | None \<Rightarrow> (False, s\<lparr>s_entityToRequest := (s_entityToRequest s)(uid := None)\<rparr>)))"

definition manhattan :: "Point \<Rightarrow> Point \<Rightarrow> int" where
  "manhattan startp endp = \<bar>pt_x endp - pt_x startp\<bar> + \<bar>pt_y endp - pt_y startp\<bar>"

text \<open>Lines 226-328: direct snap, direct path, or an asynchronous path request.\<close>

definition resolveMove ::
  "Config \<Rightarrow> MoveOptions \<Rightarrow> EntityID \<Rightarrow> QVector3D \<Rightarrow> TransformComponent \<Rightarrow> MovementComponent \<Rightarrow> Sim
    \<Rightarrow> MovementComponent \<times> Sim" where
  "resolveMove cfg opts uid tgt tr mv s =
     (let tx = vec_x tgt; tz = vec_z tgt in
      case s_pathfinder s of
        None \<Rightarrow> (snapToTarget tx tz mv, clearPendingRequest uid s)
      | Some pf \<Rightarrow>
          (let startp = worldToGrid (s_pathfinder s) (vec_x (position tr)) (vec_z (position tr));
               endp = worldToGrid (s_pathfinder s) tx tz
           in if startp = endp then (snapToTarget tx tz mv, clearPendingRequest uid s)
              else if manhattan startp endp \<le> DIRECT_PATH_THRESHOLD cfg \<and> allowDirectFallback opts
              then ((snapToTarget tx tz mv)
                      \<lparr>timeSinceLastPathRequest := 0, lastGoalX := tx, lastGoalY := tz\<rparr>,
                    clearPendingRequest uid s)
              else (case supersedeExisting opts uid tx tz s of
                      (skip_new_request, s1) \<Rightarrow>
                        if skip_new_request then (mv, s1)
                        else (case fetch_add (s_nextRequestId s1) of
                                (rid, next_id) \<Rightarrow>
                                  (mv\<lparr>path := [], hasTarget := False, vx := 0, vz := 0,
                                      pathPending := True, pendingRequestId := rid,
                                      timeSinceLastPathRequest := 0,
                                      lastGoalX := tx, lastGoalY := tz\<rparr>,
                                   s1\<lparr>s_nextRequestId := next_id,
                                      s_pendingRequests := (s_pendingRequests s1)
                                        (rid \<mapsto> \<lparr>entity_id = uid, target = tgt, options = opts,
                                                 groupMembers = [], groupTargets = []\<rparr>),
                                      s_entityToRequest := (s_entityToRequest s1)(uid \<mapsto> rid),
                                      s_pathfinder := Some (submitPathRequest rid startp endp pf)\<rparr>)))))"

text \<open>
  One iteration of the loop of \<^verbatim>\<open>moveUnits\<close> (lines 124-329); every \<^verbatim>\<open>continue\<close> is a
  branch that returns the state reached so far. \<^verbatim>\<open>addComponent\<close> is taken to succeed.
\<close>

definition moveUnit :: "Config \<Rightarrow> MoveOptions \<Rightarrow> Sim \<Rightarrow> EntityID \<times> QVector3D \<Rightarrow> Sim" where
  "moveUnit cfg opts s ut =
     (let uid = fst ut; tgt = snd ut in
      case world s uid of
        None \<Rightarrow> s
      | Some e0 \<Rightarrow>
          (let e1 = exitHoldMode e0 in
           if (case attack e1 of Some atk \<Rightarrow> inMeleeLock atk | None \<Rightarrow> False)
           then s\<lparr>world := (world s)(uid \<mapsto> e1)\<rparr>
           else
             (case transform e1 of
                None \<Rightarrow> s\<lparr>world := (world s)(uid \<mapsto> e1)\<rparr>
              | Some tr \<Rightarrow>
                  (let mv0 = (case movement e1 of Some m \<Rightarrow> m | None \<Rightarrow> newMovementComponent cfg);
                       e2 = e1\<lparr>movement := Some mv0\<rparr>;
                       e3 = (if clearAttackIntent opts then e2\<lparr>attackTarget := None\<rparr> else e2);
                       s1 = s\<lparr>world := (world s)(uid \<mapsto> e3)\<rparr>;
                       tx = vec_x tgt; tz = vec_z tgt
                   in case matchPending opts uid tx tz mv0 s1 of
                        (matched_pending, s2) \<Rightarrow>
                          (let mv1 = mv0\<lparr>goalX := tx, goalY := tz\<rparr>
                           in if matched_pending then putMovement uid mv1 s2
                              else if cooldownContinue tx tz mv1 then putMovement uid mv1 s2
                              else if alreadySatisfied tx tz mv1 then putMovement uid mv1 s2
                              else (case resolveMove cfg opts uid tgt tr mv1 s2 of
                                      (mv2, s3) \<Rightarrow> putMovement uid mv2 s3))))))"

definition moveUnitsLoop :: "Config \<Rightarrow> MoveOptions \<Rightarrow> EntityID list \<Rightarrow> QVector3D list \<Rightarrow> Sim \<Rightarrow> Sim" where
  "moveUnitsLoop cfg opts units targets s = foldl (moveUnit cfg opts) s (zip units targets)"

section \<open>Group move resolver\<close>

text \<open>
  \<^verbatim>\<open>MemberInfo\<close> of \<^verbatim>\<open>moveGroup\<close>. The C++ struct holds pointers to the entity and to its
  transform and movement components. The model keeps the entity id, through which the
  movement component is read and written in the world, and the position read from the
  transform, which nothing in this code writes.
\<close>

record MemberInfo =
  m_id :: EntityID
  m_position :: QVector3D
  m_target :: QVector3D
  m_isEngaged :: bool
  m_speed :: real
  m_spawn_type :: SpawnType
  m_distanceToTarget :: real

definition updMovement :: "EntityID \<Rightarrow> (MovementComponent \<Rightarrow> MovementComponent) \<Rightarrow> Sim \<Rightarrow> Sim" where
  "updMovement uid f s =
     (case world s uid of
        None \<Rightarrow> s
      | Some e \<Rightarrow>
          (case movement e of
             None \<Rightarrow> s
           | Some mv \<Rightarrow> s\<lparr>world := (world s)(uid \<mapsto> e\<lparr>movement := Some (f mv)\<rparr>)\<rparr>))"

text \<open>One iteration of the member-building loop (lines 351-394).\<close>

definition buildMember ::
  "Config \<Rightarrow> MoveOptions \<Rightarrow> Sim \<times> MemberInfo list \<Rightarrow> EntityID \<times> QVector3D \<Rightarrow> Sim \<times> MemberInfo list" where
  "buildMember cfg opts acc ut =
     (case acc of
        (s, members) \<Rightarrow>
          (case world s (fst ut) of
             None \<Rightarrow> (s, members)
           | Some entity0 \<Rightarrow>
               (let entity1 = exitHoldMode entity0 in
                case transform entity1 of
                  None \<Rightarrow> (s\<lparr>world := (world s)(fst ut \<mapsto> entity1)\<rparr>, members)
                | Some tr \<Rightarrow>
                    (let mv = (case movement entity1 of Some m \<Rightarrow> m
                               | None \<Rightarrow> newMovementComponent cfg);
                         entity2 = entity1\<lparr>movement := Some mv\<rparr>;
                         engaged0 = (attackTarget entity2 \<noteq> None);
                         entity3 = (if clearAttackIntent opts then entity2\<lparr>attackTarget := None\<rparr>
                                    else entity2);
                         engaged = (if clearAttackIntent opts then False else engaged0);
                         member_speed = (case unit entity3 of Some u \<Rightarrow> max (1 / 10) (speed u)
                                         | None \<Rightarrow> 1);
                         spawn = (case unit entity3 of Some u \<Rightarrow> spawn_type u | None \<Rightarrow> Archer)
                     in (s\<lparr>world := (world s)(fst ut \<mapsto> entity3)\<rparr>,
                         members @ [\<lparr>m_id = fst ut,
                                     m_position = QVector3D (vec_x (position tr)) 0 (vec_z (position tr)),
                                     m_target = snd ut, m_isEngaged = engaged,
                                     m_speed = member_speed, m_spawn_type = spawn,
                                     m_distanceToTarget = 0\<rparr>])))))"

definition buildMembers ::
  "Config \<Rightarrow> MoveOptions \<Rightarrow> EntityID list \<Rightarrow> QVector3D list \<Rightarrow> Sim \<Rightarrow> Sim \<times> MemberInfo list" where
  "buildMembers cfg opts units targets s = foldl (buildMember cfg opts) (s, []) (zip units targets)"

text \<open>Lines 430-438: the test made on the destination cell of one moving member.\<close>

definition targetInvalid :: "Pathfinding \<Rightarrow> Pathfinding option \<Rightarrow> MemberInfo \<Rightarrow> bool" where
  "targetInvalid pf pfo m =
     (let target_grid = worldToGrid pfo (vec_x (m_target m)) (vec_z (m_target m))
      in if pt_x target_grid < 0 \<or> pt_y target_grid < 0 then True
         else if \<not> isWalkable pf (pt_x target_grid) (pt_y target_grid) then True
         else False)"

text \<open>Lines 425-439: the loop stops at the first invalid destination.\<close>

fun any_target_invalid :: "Pathfinding \<Rightarrow> Pathfinding option \<Rightarrow> MemberInfo list \<Rightarrow> bool" where
  "any_target_invalid pf pfo [] = False"
| "any_target_invalid pf pfo (m # ms) =
     (if targetInvalid pf pfo m then True else any_target_invalid pf pfo ms)"

definition clamp :: "real \<Rightarrow> real \<Rightarrow> real \<Rightarrow> real" where
  "clamp v lo hi = (if v < lo then lo else if hi < v then hi else v)"

definition centroidOf :: "QVector3D list \<Rightarrow> QVector3D" where
  "centroidOf vs = vdiv (foldl vadd (QVector3D 0 0 0) vs) (real (length vs))"

text \<open>Lines 518-536: whether a member advances on its own.\<close>

definition should_advance :: "real \<Rightarrow> real \<Rightarrow> real \<Rightarrow> QVector3D \<Rightarrow> MemberInfo \<Rightarrow> bool" where
  "should_advance near_threshold scatter_threshold avg_speed position_centroid m =
     (let to_target = m_distanceToTarget m;
          to_centroid = vlength (vsub (m_position m) position_centroid);
          near_destination = (to_target \<le> near_threshold);
          far_from_group = (to_centroid > scatter_threshold * (3 / 2));
          fast_unit = (m_speed m \<ge> avg_speed + 1 / 2 \<or> m_spawn_type m = MountedKnight)
      in if near_destination then True
         else if fast_unit \<and> to_target \<le> near_threshold * (3 / 2) then True
         else if far_from_group \<and> to_target \<le> near_threshold * 2 then True
         else False)"

text \<open>Lines 583-591: the first member whose destination is nearest to the average.\<close>

fun electLeader :: "QVector3D \<Rightarrow> MemberInfo list \<Rightarrow> nat \<Rightarrow> nat \<times> real option \<Rightarrow> nat \<times> real option" where
  "electLeader average [] i acc = acc"
| "electLeader average (m # ms) i acc =
     (let dist_sq = lengthSquared (vsub (m_target m) average)
      in electLeader average ms (Suc i)
           (if (case snd acc of None \<Rightarrow> True | Some best_dist_sq \<Rightarrow> dist_sq < best_dist_sq)
            then (i, Some dist_sq) else acc))"

definition leader_index :: "MemberInfo list \<Rightarrow> nat" where
  "leader_index members =
     fst (electLeader (centroidOf (map m_target members)) members 0 (0, None))"

text \<open>Lines 599-615: one iteration of the loop that resets a regroup member.\<close>

definition resetMember :: "Sim \<Rightarrow> MemberInfo \<Rightarrow> Sim" where
  "resetMember s m =
     updMovement (m_id m)
       (\<lambda>mv. mv\<lparr>goalX := vec_x (m_target m), goalY := vec_z (m_target m),
                target_x := vec_x (m_position m), target_y := vec_z (m_position m),
                hasTarget := False, vx := 0, vz := 0, path := [],
                pathPending := False, pendingRequestId := 0\<rparr>)
       (clearPendingRequest (m_id m) s)"

text \<open>Lines 622-626 and 635-639.\<close>

definition directToTarget :: "Sim \<Rightarrow> MemberInfo \<Rightarrow> Sim" where
  "directToTarget s m =
     updMovement (m_id m)
       (\<lambda>mv. mv\<lparr>target_x := vec_x (m_target m), target_y := vec_z (m_target m),
                hasTarget := True\<rparr>) s"

text \<open>Lines 651-659.\<close>

definition directPathToTarget :: "Sim \<Rightarrow> MemberInfo \<Rightarrow> Sim" where
  "directPathToTarget s m =
     updMovement (m_id m)
       (\<lambda>mv. mv\<lparr>target_x := vec_x (m_target m), target_y := vec_z (m_target m),
                hasTarget := True, timeSinceLastPathRequest := 0,
                lastGoalX := vec_x (m_target m), lastGoalY := vec_z (m_target m)\<rparr>) s"

text \<open>Lines 666-673.\<close>

definition markPending :: "RequestId \<Rightarrow> Sim \<Rightarrow> MemberInfo \<Rightarrow> Sim" where
  "markPending rid s m =
     updMovement (m_id m)
       (\<lambda>mv. mv\<lparr>pathPending := True, pendingRequestId := rid, timeSinceLastPathRequest := 0,
                lastGoalX := vec_x (m_target m), lastGoalY := vec_z (m_target m)\<rparr>) s"

text \<open>
  Lines 575-695, for the regroup set \<open>members\<close> (at least two members): leader election,
  reset of every member, then the snap and direct-path shortcuts decided on the leader's
  cells, or one shared path request.
\<close>

definition formationMove :: "Config \<Rightarrow> MoveOptions \<Rightarrow> MemberInfo list \<Rightarrow> Sim \<Rightarrow> Sim" where
  "formationMove cfg opts members s =
     (let leader = members ! leader_index members;
          leader_target = m_target leader;
          s1 = foldl resetMember s members
      in case s_pathfinder s1 of
           None \<Rightarrow> foldl directToTarget s1 members
         | Some pf \<Rightarrow>
             (let startp = worldToGrid (s_pathfinder s1) (vec_x (m_position leader))
                             (vec_z (m_position leader));
                  endp = worldToGrid (s_pathfinder s1) (vec_x leader_target) (vec_z leader_target)
              in if startp = endp then foldl directToTarget s1 members
                 else if manhattan startp endp \<le> DIRECT_PATH_THRESHOLD cfg \<and> allowDirectFallback opts
                 then foldl directPathToTarget s1 members
                 else (case fetch_add (s_nextRequestId s1) of
                         (rid, next_id) \<Rightarrow>
                           (let s2 = foldl (markPending rid) s1 members
                            in s2\<lparr>s_nextRequestId := next_id,
                                  s_pendingRequests := (s_pendingRequests s2)
                                    (rid \<mapsto> \<lparr>entity_id = m_id leader, target = leader_target,
                                             options = opts,
                                             groupMembers = map m_id members,
                                             groupTargets = map m_target members\<rparr>),
                                  s_entityToRequest :=
                                    foldl (\<lambda>e2r m. e2r(m_id m \<mapsto> rid)) (s_entityToRequest s2) members,
                                  s_pathfinder := Some (submitPathRequest rid startp endp pf)\<rparr>))))"

text \<open>
  Lines 446-573, for the moving members (not empty): statistics of the group, the
  near-destination shortcut, the split into members that advance on their own and members
  that regroup. The calls \<^verbatim>\<open>moveUnits(world, ids, targets, direct_options)\<close> pass lists of
  equal length and \<^verbatim>\<open>groupMove = false\<close>, so they run the single-unit loop.
\<close>

definition withDistances :: "MemberInfo list \<Rightarrow> MemberInfo list" where
  "withDistances members =
     map (\<lambda>m. m\<lparr>m_distanceToTarget := vlength (vsub (m_position m) (m_target m))\<rparr>) members"

definition near_threshold_of :: "MemberInfo list \<Rightarrow> real" where
  "near_threshold_of members =
     clamp ((foldl (+) 0 (map m_distanceToTarget members) / real (length members)) * (1 / 2)) 4 12"

definition position_centroid_of :: "MemberInfo list \<Rightarrow> QVector3D" where
  "position_centroid_of members = centroidOf (map m_position members)"

definition scatter_threshold_of :: "MemberInfo list \<Rightarrow> real" where
  "scatter_threshold_of members =
     max (foldl (+) 0 (map (\<lambda>m. vlength (vsub (m_position m) (position_centroid_of members))) members)
            / real (length members))
         (5 / 2)"

definition avg_speed_of :: "MemberInfo list \<Rightarrow> real" where
  "avg_speed_of members = foldl (+) 0 (map m_speed members) / real (length members)"

definition advances :: "MemberInfo list \<Rightarrow> MemberInfo \<Rightarrow> bool" where
  "advances members m =
     should_advance (near_threshold_of members) (scatter_threshold_of members)
       (avg_speed_of members) (position_centroid_of members) m"

definition groupAdvance :: "Config \<Rightarrow> MoveOptions \<Rightarrow> MemberInfo list \<Rightarrow> Sim \<Rightarrow> Sim" where
  "groupAdvance cfg opts moving s =
     (let members = withDistances moving;
          max_target_distance = foldl max 0 (map m_distanceToTarget members);
          direct_options = opts\<lparr>groupMove := False\<rparr>
      in if max_target_distance \<le> near_threshold_of members
         then moveUnitsLoop cfg direct_options (map m_id members) (map m_target members) s
         else
           (let direct_members = filter (advances members) members;
                regroup_members = filter (\<lambda>m. \<not> advances members m) members;
                s1 = (if direct_members \<noteq> []
                      then moveUnitsLoop cfg direct_options (map m_id direct_members)
                             (map m_target direct_members) s
                      else s)
            in if length regroup_members \<le> 1
               then (case regroup_members of
                       [] \<Rightarrow> s1
                     | m # rest \<Rightarrow> moveUnitsLoop cfg direct_options [m_id m] [m_target m] s1)
               else formationMove cfg opts regroup_members s1))"

definition moveGroup :: "Config \<Rightarrow> MoveOptions \<Rightarrow> EntityID list \<Rightarrow> QVector3D list \<Rightarrow> Sim \<Rightarrow> Sim" where
  "moveGroup cfg opts units targets s =
     (case buildMembers cfg opts units targets s of
        (s0, members) \<Rightarrow>
          (case members of
             [] \<Rightarrow> s0
           | m # rest \<Rightarrow>
               if rest = []
               then moveUnitsLoop cfg (opts\<lparr>groupMove := False\<rparr>) [m_id m] [m_target m] s0
               else
                 (let moving_members = filter (\<lambda>m. \<not> m_isEngaged m) members
                  in if moving_members = [] then s0
                     else if (case s_pathfinder s0 of
                                Some pf \<Rightarrow> any_target_invalid pf (s_pathfinder s0) moving_members
                              | None \<Rightarrow> False)
                     then s0
                     else groupAdvance cfg opts moving_members s0)))"

text \<open>\<^verbatim>\<open>moveUnits\<close> with options (lines 111-122), and the overload without (lines 105-109).\<close>

definition moveUnits :: "Config \<Rightarrow> MoveOptions \<Rightarrow> EntityID list \<Rightarrow> QVector3D list \<Rightarrow> Sim \<Rightarrow> Sim" where
  "moveUnits cfg opts units targets s =
     (if length units \<noteq> length targets then s
      else if groupMove opts \<and> length units > 1 then moveGroup cfg opts units targets s
      else moveUnitsLoop cfg opts units targets s)"

definition moveUnitsDefault :: "Config \<Rightarrow> EntityID list \<Rightarrow> QVector3D list \<Rightarrow> Sim \<Rightarrow> Sim" where
  "moveUnitsDefault cfg units targets s = moveUnits cfg (defaultMoveOptions cfg) units targets s"

section \<open>Path-result reconciler\<close>

text \<open>Lines 768-772: the waypoints after the start cell, in world coordinates, shifted.\<close>

definition offsetWaypoints :: "Pathfinding option \<Rightarrow> Point list \<Rightarrow> QVector3D \<Rightarrow> (real \<times> real) list" where
  "offsetWaypoints pfo path_points offset =
     map (\<lambda>pt. (vec_x (gridToWorld pfo pt) + vec_x offset, vec_z (gridToWorld pfo pt) + vec_z offset))
       (drop 1 path_points)"

text \<open>Lines 774-784: leading waypoints near the entity are dropped.\<close>

fun pruneLeading :: "real \<Rightarrow> QVector3D \<Rightarrow> (real \<times> real) list \<Rightarrow> (real \<times> real) list" where
  "pruneLeading skip_threshold_sq pos [] = []"
| "pruneLeading skip_threshold_sq pos (wp # rest) =
     (let dx = fst wp - vec_x pos; dz = snd wp - vec_z pos
      in if dx * dx + dz * dz \<le> skip_threshold_sq then pruneLeading skip_threshold_sq pos rest
         else wp # rest)"

definition remainingWaypoints ::
  "Config \<Rightarrow> Pathfinding option \<Rightarrow> PathResult \<Rightarrow> QVector3D \<Rightarrow> TransformComponent \<Rightarrow> (real \<times> real) list" where
  "remainingWaypoints cfg pfo result offset member_transform =
     (if length (result_path result) > 1
      then pruneLeading (WAYPOINT_SKIP_THRESHOLD_SQ cfg) (position member_transform)
             (offsetWaypoints pfo (result_path result) offset)
      else [])"

text \<open>The lambda \<^verbatim>\<open>apply_to_member\<close> (lines 731-802), on the movement component.\<close>

definition applyPath ::
  "Config \<Rightarrow> Pathfinding option \<Rightarrow> PathResult \<Rightarrow> PendingPathRequest \<Rightarrow> QVector3D \<Rightarrow> QVector3D
    \<Rightarrow> TransformComponent \<Rightarrow> MovementComponent \<Rightarrow> MovementComponent" where
  "applyPath cfg pfo result request_info tgt offset member_transform mc =
     (if \<not> pathPending mc \<or> pendingRequestId mc \<noteq> request_id result
      then mc\<lparr>pathPending := False, pendingRequestId := 0\<rparr>
      else
        (let mc1 = mc\<lparr>pathPending := False, pendingRequestId := 0, path := [],
                      goalX := vec_x tgt, goalY := vec_z tgt, vx := 0, vz := 0\<rparr>
         in case remainingWaypoints cfg pfo result offset member_transform of
              wp # rest \<Rightarrow> mc1\<lparr>path := wp # rest, target_x := fst wp, target_y := snd wp,
                               hasTarget := True\<rparr>
            | [] \<Rightarrow>
                (if allowDirectFallback (options request_info)
                 then mc1\<lparr>target_x := vec_x tgt, target_y := vec_z tgt, hasTarget := True\<rparr>
                 else mc1\<lparr>hasTarget := False\<rparr>)))"

definition apply_to_member ::
  "Config \<Rightarrow> Pathfinding option \<Rightarrow> PathResult \<Rightarrow> PendingPathRequest \<Rightarrow> EntityID \<Rightarrow> QVector3D
    \<Rightarrow> QVector3D \<Rightarrow> (EntityID \<rightharpoonup> Entity) \<Rightarrow> (EntityID \<rightharpoonup> Entity)" where
  "apply_to_member cfg pfo result request_info member_id tgt offset w =
     (case w member_id of
        None \<Rightarrow> w
      | Some member_entity \<Rightarrow>
          (case movement member_entity of
             None \<Rightarrow> w
           | Some movement_component \<Rightarrow>
               (case transform member_entity of
                  None \<Rightarrow> w
                | Some member_transform \<Rightarrow>
                    w(member_id \<mapsto> member_entity\<lparr>movement :=
                        Some (applyPath cfg pfo result request_info tgt offset member_transform
                                movement_component)\<rparr>))))"

text \<open>
  Lines 834-845: the calls of \<^verbatim>\<open>add_member\<close>, first for the owner with the request's
  target, then for each group member with its own target (the request's target when the
  list of targets is shorter).
\<close>

fun memberTargets :: "QVector3D \<Rightarrow> EntityID list \<Rightarrow> QVector3D list \<Rightarrow> (EntityID \<times> QVector3D) list" where
  "memberTargets leader_target [] ts = []"
| "memberTargets leader_target (m # ms) [] = (m, leader_target) # memberTargets leader_target ms []"
| "memberTargets leader_target (m # ms) (t # ts) = (m, t) # memberTargets leader_target ms ts"

definition addMemberCalls :: "PendingPathRequest \<Rightarrow> (EntityID \<times> QVector3D) list" where
  "addMemberCalls request_info =
     (entity_id request_info, target request_info)
       # memberTargets (target request_info) (groupMembers request_info) (groupTargets request_info)"

text \<open>The lambda \<^verbatim>\<open>add_member\<close> (lines 824-832) over these calls, with the list \<^verbatim>\<open>processed\<close>.\<close>

fun add_members ::
  "Config \<Rightarrow> Pathfinding option \<Rightarrow> PathResult \<Rightarrow> PendingPathRequest \<Rightarrow> (EntityID \<times> QVector3D) list
    \<Rightarrow> EntityID list \<Rightarrow> (EntityID \<rightharpoonup> Entity) \<Rightarrow> (EntityID \<rightharpoonup> Entity)" where
  "add_members cfg pfo result request_info [] processed w = w"
| "add_members cfg pfo result request_info (c # calls) processed w =
     (if List.member processed (fst c)
      then add_members cfg pfo result request_info calls processed w
      else add_members cfg pfo result request_info calls (processed @ [fst c])
             (apply_to_member cfg pfo result request_info (fst c) (snd c)
                (vsub (snd c) (target request_info)) w))"

text \<open>One iteration of the loop over the results (lines 707-846).\<close>

definition processResult :: "Config \<Rightarrow> Sim \<Rightarrow> PathResult \<Rightarrow> Sim" where
  "processResult cfg s result =
     (case s_pendingRequests s (request_id result) of
        None \<Rightarrow> s
      | Some request_info \<Rightarrow>
          s\<lparr>s_pendingRequests := (s_pendingRequests s)(request_id result := None),
            s_entityToRequest :=
              eraseMembers (request_id result)
                (entity_id request_info # groupMembers request_info) (s_entityToRequest s),
            world := add_members cfg (s_pathfinder s) result request_info
                       (addMemberCalls request_info) [] (world s)\<rparr>)"

text \<open>
  \<^verbatim>\<open>processPathResults\<close>; \<open>results\<close> is what \<^verbatim>\<open>fetchCompletedPaths\<close> of the
  pathfinding engine returns.
\<close>

definition processPathResults :: "Config \<Rightarrow> PathResult list \<Rightarrow> Sim \<Rightarrow> Sim" where
  "processPathResults cfg results s =
     (case s_pathfinder s of
        None \<Rightarrow> s
      | Some pf \<Rightarrow> foldl (processResult cfg) s results)"

section \<open>Attack-target positioning\<close>

definition effectiveRange :: "Entity \<Rightarrow> real" where
  "effectiveRange e = (case attack e of Some atk \<Rightarrow> max (1 / 10) (atk_range atk) | None \<Rightarrow> 2)"

definition is_ranged_unit :: "Entity \<Rightarrow> bool" where
  "is_ranged_unit e =
     (case attack e of
        Some atk \<Rightarrow> canRanged atk \<and> atk_range atk > meleeRange atk * (3 / 2)
      | None \<Rightarrow> False)"

text \<open>Lines 916-933: the stand-off distance, for a building and for a unit.\<close>

definition desired_distance :: "Entity \<Rightarrow> Entity \<Rightarrow> TransformComponent \<Rightarrow> real" where
  "desired_distance e target_ent t_trans =
     (if building target_ent
      then max (vec_x (scale t_trans)) (vec_z (scale t_trans)) * (1 / 2)
             + max (effectiveRange e - 1 / 5) (1 / 5)
      else if is_ranged_unit e then effectiveRange e * (17 / 20)
      else max (effectiveRange e - 1 / 5) (1 / 5))"

definition attack_distance :: "TransformComponent \<Rightarrow> TransformComponent \<Rightarrow> real" where
  "attack_distance t_trans att_trans =
     vlength (vsub (QVector3D (vec_x (position t_trans)) 0 (vec_z (position t_trans)))
                   (QVector3D (vec_x (position att_trans)) 0 (vec_z (position att_trans))))"

text \<open>Lines 897-934.\<close>

definition desired_pos :: "Entity \<Rightarrow> Entity \<Rightarrow> TransformComponent \<Rightarrow> TransformComponent \<Rightarrow> QVector3D" where
  "desired_pos e target_ent t_trans att_trans =
     (let target_pos = QVector3D (vec_x (position t_trans)) 0 (vec_z (position t_trans));
          attacker_pos = QVector3D (vec_x (position att_trans)) 0 (vec_z (position att_trans));
          direction = vsub target_pos attacker_pos;
          distance = vlength direction
      in if distance > 1 / 1000
         then (if distance > desired_distance e target_ent t_trans + 3 / 20
               then vsub target_pos (vscale (vdiv direction distance)
                                       (desired_distance e target_ent t_trans))
               else target_pos)
         else target_pos)"

text \<open>
  One iteration of the loop of \<^verbatim>\<open>attack_target\<close> (lines 856-956). \<^verbatim>\<open>addComponent\<close> is
  taken to succeed; the attack-target component has no field besides the two that are
  assigned.
\<close>

definition attackUnit :: "Config \<Rightarrow> EntityID \<Rightarrow> bool \<Rightarrow> Sim \<Rightarrow> EntityID \<Rightarrow> Sim" where
  "attackUnit cfg tid chase s unit_id =
     (case world s unit_id of
        None \<Rightarrow> s
      | Some e0 \<Rightarrow>
          (let e = (exitHoldMode e0)\<lparr>attackTarget := Some \<lparr>target_id = tid, shouldChase = chase\<rparr>\<rparr>;
               s1 = s\<lparr>world := (world s)(unit_id \<mapsto> e)\<rparr>
           in if \<not> chase then s1
              else
                (case world s1 tid of
                   None \<Rightarrow> s1
                 | Some target_ent \<Rightarrow>
                     (case transform target_ent of
                        None \<Rightarrow> s1
                      | Some t_trans \<Rightarrow>
                          (case transform e of
                             None \<Rightarrow> s1
                           | Some att_trans \<Rightarrow>
                               (let dpos = desired_pos e target_ent t_trans att_trans;
                                    opts = (defaultMoveOptions cfg)
                                             \<lparr>clearAttackIntent := False, allowDirectFallback := True\<rparr>;
                                    s2 = moveUnits cfg opts [unit_id] [dpos] s1
                                in case world s2 unit_id of
                                     None \<Rightarrow> s2
                                   | Some e2 \<Rightarrow>
                                       (let mv = (case movement e2 of Some m \<Rightarrow> m
                                                  | None \<Rightarrow> newMovementComponent cfg)
                                        in s2\<lparr>world := (world s2)(unit_id \<mapsto> e2\<lparr>movement :=
                                               Some (mv\<lparr>target_x := vec_x dpos, target_y := vec_z dpos,
                                                        goalX := vec_x dpos, goalY := vec_z dpos,
                                                        hasTarget := True, path := []\<rparr>)\<rparr>)\<rparr>)))))))"

definition attack_target :: "Config \<Rightarrow> EntityID list \<Rightarrow> EntityID \<Rightarrow> bool \<Rightarrow> Sim \<Rightarrow> Sim" where
  "attack_target cfg units tid chase s =
     (if tid = 0 then s else foldl (attackUnit cfg tid chase) s units)"

section \<open>Predicates used in the statements\<close>

text \<open>The movement component that the loop of \<^verbatim>\<open>moveUnits\<close> works on (lines 148-151).\<close>

definition movementOf :: "Config \<Rightarrow> Entity \<Rightarrow> MovementComponent" where
  "movementOf cfg e = (case movement e of Some m \<Rightarrow> m | None \<Rightarrow> newMovementComponent cfg)"

text \<open>
  The guards of \<^verbatim>\<open>moveUnits\<close> that end an iteration before the choice between a direct
  path and a path request is reached: the melee lock (lines 137-141), the reuse of a pending
  request (lines 163-187), the cooldown (lines 189-204) and the destination already being
  the target (lines 206-224).
\<close>

definition dropsCommand :: "Config \<Rightarrow> MoveOptions \<Rightarrow> EntityID \<Rightarrow> QVector3D \<Rightarrow> Entity \<Rightarrow> Sim \<Rightarrow> bool" where
  "dropsCommand cfg opts uid tgt e s =
     (if (case attack e of Some atk \<Rightarrow> inMeleeLock atk | None \<Rightarrow> False) then True
      else if fst (matchPending opts uid (vec_x tgt) (vec_z tgt) (movementOf cfg e) s) then True
      else if cooldownContinue (vec_x tgt) (vec_z tgt) (movementOf cfg e) then True
      else alreadySatisfied (vec_x tgt) (vec_z tgt) (movementOf cfg e))"

definition hasMovement :: "Sim \<Rightarrow> EntityID \<Rightarrow> bool" where
  "hasMovement s uid = (case world s uid of None \<Rightarrow> False | Some e \<Rightarrow> movement e \<noteq> None)"

text \<open>The entity is marked as waiting for the request \<open>rid\<close>.\<close>

definition pendingOn :: "RequestId \<Rightarrow> Sim \<Rightarrow> EntityID \<Rightarrow> bool" where
  "pendingOn rid s uid =
     (case world s uid of
        None \<Rightarrow> False
      | Some e \<Rightarrow> (case movement e of
                     None \<Rightarrow> False
                   | Some mv \<Rightarrow> pathPending mv \<and> pendingRequestId mv = rid))"

text \<open>
  From \<open>s\<close> to \<open>s'\<close> the same entities exist and every movement component is the same,
  but for a default-constructed one attached where there was none.
\<close>

definition movementKept :: "Config \<Rightarrow> Sim \<Rightarrow> Sim \<Rightarrow> bool" where
  "movementKept cfg s s' =
     (\<forall>uid. case world s uid of
              None \<Rightarrow> world s' uid = None
            | Some e \<Rightarrow>
                (case world s' uid of
                   None \<Rightarrow> False
                 | Some e' \<Rightarrow> movement e' = movement e
                              \<or> (movement e = None \<and> movement e' = Some (newMovementComponent cfg))))"

text \<open>What the member-building loop of \<^verbatim>\<open>moveGroup\<close> keeps true of its accumulator.\<close>

definition buildInv :: "Config \<Rightarrow> Sim \<Rightarrow> Sim \<times> MemberInfo list \<Rightarrow> bool" where
  "buildInv cfg s acc =
     (s_pathfinder (fst acc) = s_pathfinder s \<and> s_nextRequestId (fst acc) = s_nextRequestId s
      \<and> s_entityToRequest (fst acc) = s_entityToRequest s
      \<and> s_pendingRequests (fst acc) = s_pendingRequests s
      \<and> movementKept cfg s (fst acc)
      \<and> (\<forall>m \<in> set (snd acc). hasMovement (fst acc) (m_id m)))"

section \<open>Commands and the request ids they allocate\<close>

text \<open>
  The ids of the requests handed to the pathfinding engine so far, in the order of the calls
  of \<^verbatim>\<open>submitPathRequest\<close> (lines 314 and 681).
\<close>

definition submittedIds :: "Sim \<Rightarrow> RequestId list" where
  "submittedIds s = (case s_pathfinder s of None \<Rightarrow> [] | Some pf \<Rightarrow> map fst (submitted pf))"

text \<open>
  Between \<open>s\<close> and \<open>s'\<close> the counter was advanced by \<open>k\<close> calls of \<^verbatim>\<open>fetch_add\<close>; the ids it
  returned are the ids submitted to the engine since \<open>s\<close>, and every key that the ledger
  gained and every request id that the entity-to-request map gained is one of them.
\<close>

definition idsAllocated :: "Sim \<Rightarrow> Sim \<Rightarrow> bool" where
  "idsAllocated s s' =
     (\<exists>k. s_nextRequestId s' = snd (allocations k (s_nextRequestId s))
          \<and> submittedIds s' = submittedIds s @ fst (allocations k (s_nextRequestId s))
          \<and> dom (s_pendingRequests s') \<subseteq> dom (s_pendingRequests s) \<union> set (fst (allocations k (s_nextRequestId s)))
          \<and> ran (s_entityToRequest s') \<subseteq> ran (s_entityToRequest s) \<union> set (fst (allocations k (s_nextRequestId s))))"

text \<open>
  The state of the service when the program starts (lines 30-37): no pathfinder, an empty
  ledger, the counter at 1.
\<close>

definition startUp :: "(EntityID \<rightharpoonup> Entity) \<Rightarrow> Sim" where
  "startUp wld = \<lparr>world = wld, s_pathfinder = None, s_pendingRequests = Map.empty,
     s_entityToRequest = Map.empty, s_nextRequestId = 1\<rparr>"

text \<open>
  The public operations of \<^verbatim>\<open>CommandService\<close>, and a change of the world by the rest of the
  game (which has no access to the private statics of the service).
\<close>

datatype Command =
    MoveUnits MoveOptions "EntityID list" "QVector3D list"
  | AttackTarget "EntityID list" EntityID bool
  | ProcessPathResults "PathResult list"
  | ClearPendingRequest EntityID
  | Initialize "int \<Rightarrow> int \<Rightarrow> bool" int int
  | WorldChange "EntityID \<rightharpoonup> Entity"

fun runCommand :: "Config \<Rightarrow> Sim \<Rightarrow> Command \<Rightarrow> Sim" where
  "runCommand cfg s (MoveUnits opts units targets) = moveUnits cfg opts units targets s"
| "runCommand cfg s (AttackTarget units tid chase) = attack_target cfg units tid chase s"
| "runCommand cfg s (ProcessPathResults results) = processPathResults cfg results s"
| "runCommand cfg s (ClearPendingRequest eid) = clearPendingRequest eid s"
| "runCommand cfg s (Initialize walk w h) = initialize walk w h s"
| "runCommand cfg s (WorldChange wld) = s\<lparr>world := wld\<rparr>"

definition runCommands :: "Config \<Rightarrow> Command list \<Rightarrow> Sim \<Rightarrow> Sim" where
  "runCommands cfg cmds s = foldl (runCommand cfg) s cmds"

text \<open>
  What holds since the program started or \<open>initialize\<close> was last called: the counter is 1
  advanced by as many calls of \<^verbatim>\<open>fetch_add\<close> as requests were submitted, the submitted ids
  are the ids those calls returned, and every key of the ledger and every request id in
  the entity-to-request map is a submitted id.
\<close>

definition epochInv :: "Sim \<Rightarrow> bool" where
  "epochInv s =
     (\<exists>k. s_nextRequestId s = snd (allocations k 1)
          \<and> submittedIds s = fst (allocations k 1)
          \<and> dom (s_pendingRequests s) \<subseteq> set (submittedIds s)
          \<and> ran (s_entityToRequest s) \<subseteq> set (submittedIds s))"

section \<open>Example states\<close>

text \<open>Concrete configurations and states on which the theorems below are exercised.\<close>

definition idleMovement :: MovementComponent where
  "idleMovement = \<lparr>goalX = 0, goalY = 0, target_x = 0, target_y = 0, hasTarget = False, path = [],
     pathPending = False, pendingRequestId = 0, vx = 0, vz = 0, timeSinceLastPathRequest = 5,
     lastGoalX = 0, lastGoalY = 0\<rparr>"

definition exampleConfig :: Config where
  "exampleConfig = \<lparr>DIRECT_PATH_THRESHOLD = 4, WAYPOINT_SKIP_THRESHOLD_SQ = 1 / 4,
     newMovementComponent = idleMovement,
     defaultMoveOptions = \<lparr>groupMove = False, clearAttackIntent = True, allowDirectFallback = True\<rparr>\<rparr>"

text \<open>A grid of 50 by 50 walkable cells with offset 0: cell and world coordinates agree.\<close>

definition examplePathfinder :: Pathfinding where
  "examplePathfinder = \<lparr>gridOffsetX = 0, gridOffsetZ = 0,
     isWalkable = (\<lambda>cx cz. 0 \<le> cx \<and> cx < 50 \<and> 0 \<le> cz \<and> cz < 50), submitted = []\<rparr>"

definition plainUnit :: "real \<Rightarrow> real \<Rightarrow> MovementComponent \<Rightarrow> Entity" where
  "plainUnit px pz mv = \<lparr>holdMode = None, attack = None,
     transform = Some \<lparr>position = QVector3D px 0 pz, scale = QVector3D 1 1 1\<rparr>,
     movement = Some mv, attackTarget = None, unit = None, building = False\<rparr>"

definition exampleOptions :: MoveOptions where
  "exampleOptions = \<lparr>groupMove = False, clearAttackIntent = True, allowDirectFallback = True\<rparr>"

definition groupOptions :: MoveOptions where
  "groupOptions = \<lparr>groupMove = True, clearAttackIntent = True, allowDirectFallback = True\<rparr>"

text \<open>
  Entity 7 stands at (5, 5) and owns request 1 of the ledger, whose destination is where it
  stands; its movement component says that it waits for request \<open>rid\<close>.
\<close>

definition pendingOwner :: "RequestId \<Rightarrow> Sim" where
  "pendingOwner rid =
     \<lparr>world = [7 \<mapsto> plainUnit 5 5 (idleMovement\<lparr>pathPending := True, pendingRequestId := rid\<rparr>)],
      s_pathfinder = Some examplePathfinder,
      s_pendingRequests = [1 \<mapsto> \<lparr>entity_id = 7, target = QVector3D 5 0 5,
         options = \<lparr>groupMove = False, clearAttackIntent = True, allowDirectFallback = True\<rparr>,
         groupMembers = [], groupTargets = []\<rparr>],
      s_entityToRequest = [7 \<mapsto> 1],
      s_nextRequestId = 3\<rparr>"

definition exampleResult :: PathResult where
  "exampleResult = \<lparr>request_id = 1, result_path = [\<lparr>pt_x = 4, pt_y = 5\<rparr>, \<lparr>pt_x = 5, pt_y = 5\<rparr>]\<rparr>"

text \<open>
  Entity 7 is idle at the origin: no target, no pending request. Half a second ago a path
  was requested for it towards (10, 0).
\<close>

definition recentlyRequested :: Sim where
  "recentlyRequested =
     \<lparr>world = [7 \<mapsto> plainUnit 0 0 (idleMovement\<lparr>timeSinceLastPathRequest := 1 / 2,
                                                  lastGoalX := 10, lastGoalY := 0\<rparr>)],
      s_pathfinder = Some examplePathfinder,
      s_pendingRequests = Map.empty, s_entityToRequest = Map.empty, s_nextRequestId = 3\<rparr>"

text \<open>Entity 7 is idle at the origin and locked in melee.\<close>

definition meleeLocked :: Sim where
  "meleeLocked =
     \<lparr>world = [7 \<mapsto> (plainUnit 0 0 idleMovement)
                  \<lparr>attack := Some \<lparr>inMeleeLock = True, atk_range = 2, canRanged = False, meleeRange = 2\<rparr>\<rparr>],
      s_pathfinder = Some examplePathfinder,
      s_pendingRequests = Map.empty, s_entityToRequest = Map.empty, s_nextRequestId = 3\<rparr>"

definition freeUnit :: Sim where
  "freeUnit =
     \<lparr>world = [7 \<mapsto> plainUnit 0 0 idleMovement],
      s_pathfinder = Some examplePathfinder,
      s_pendingRequests = Map.empty, s_entityToRequest = Map.empty, s_nextRequestId = 3\<rparr>"

text \<open>
  An attacker (entity 7, no attack component, hence range 2 and stand-off distance 1.8)
  and its target (entity 8) at distance 1.75.
\<close>

definition attackerAndTarget :: Sim where
  "attackerAndTarget =
     \<lparr>world = [7 \<mapsto> plainUnit 0 0 idleMovement, 8 \<mapsto> plainUnit (7 / 4) 0 idleMovement],
      s_pathfinder = Some examplePathfinder,
      s_pendingRequests = Map.empty, s_entityToRequest = Map.empty, s_nextRequestId = 3\<rparr>"

text \<open>Two idle units side by side, far from the destinations of the group moves below.\<close>

definition twoUnits :: Sim where
  "twoUnits =
     \<lparr>world = [7 \<mapsto> plainUnit 0 0 idleMovement, 8 \<mapsto> plainUnit 0 1 idleMovement],
      s_pathfinder = Some examplePathfinder,
      s_pendingRequests = Map.empty, s_entityToRequest = Map.empty, s_nextRequestId = 3\<rparr>"

definition exampleMember :: "EntityID \<Rightarrow> QVector3D \<Rightarrow> QVector3D \<Rightarrow> real \<Rightarrow> MemberInfo" where
  "exampleMember uid pos tgt d = \<lparr>m_id = uid, m_position = pos, m_target = tgt, m_isEngaged = False,
     m_speed = 1, m_spawn_type = Archer, m_distanceToTarget = d\<rparr>"

text \<open>The members of the group move of \<open>twoUnits\<close> to (30, 0) and (30, 1), as built and with distances.\<close>

abbreviation rawPair :: "MemberInfo list" where
  "rawPair \<equiv> [exampleMember 7 (QVector3D 0 0 0) (QVector3D 30 0 0) 0,
              exampleMember 8 (QVector3D 0 0 1) (QVector3D 30 0 1) 0]"

abbreviation movingPair :: "MemberInfo list" where
  "movingPair \<equiv> [exampleMember 7 (QVector3D 0 0 0) (QVector3D 30 0 0) 30,
                 exampleMember 8 (QVector3D 0 0 1) (QVector3D 30 0 1) 30]"

text \<open>The state that this group move reaches.\<close>

definition formedGroup :: Sim where
  "formedGroup =
     \<lparr>world = [7 \<mapsto> plainUnit 0 0 (idleMovement\<lparr>goalX := 30, pathPending := True,
                        pendingRequestId := 3, timeSinceLastPathRequest := 0, lastGoalX := 30\<rparr>),
               8 \<mapsto> plainUnit 0 1 (idleMovement\<lparr>goalX := 30, goalY := 1, target_y := 1,
                        pathPending := True, pendingRequestId := 3,
                        timeSinceLastPathRequest := 0, lastGoalX := 30, lastGoalY := 1\<rparr>)],
      s_pathfinder = Some (examplePathfinder\<lparr>submitted :=
                        [(3, \<lparr>pt_x = 0, pt_y = 0\<rparr>, \<lparr>pt_x = 30, pt_y = 0\<rparr>)]\<rparr>),
      s_pendingRequests = [3 \<mapsto> \<lparr>entity_id = 7, target = QVector3D 30 0 0, options = groupOptions,
                        groupMembers = [7, 8],
                        groupTargets = [QVector3D 30 0 0, QVector3D 30 0 1]\<rparr>],
      s_entityToRequest = [7 \<mapsto> 3, 8 \<mapsto> 3],
      s_nextRequestId = 4\<rparr>"

text \<open>Options that forbid the direct fallback.\<close>

definition noFallbackOptions :: MoveOptions where
  "noFallbackOptions = \<lparr>groupMove = False, clearAttackIntent = True, allowDirectFallback = False\<rparr>"

text \<open>Results for request 3: no path at all, and a path that stays in the start cell.\<close>

definition emptyResult :: PathResult where
  "emptyResult = \<lparr>request_id = 3, result_path = []\<rparr>"

definition groupResult :: PathResult where
  "groupResult = \<lparr>request_id = 3, result_path = [\<lparr>pt_x = 0, pt_y = 0\<rparr>, \<lparr>pt_x = 0, pt_y = 0\<rparr>]\<rparr>"

text \<open>Two moves of unit 7 to destinations far apart.\<close>

definition exampleCommands :: "Command list" where
  "exampleCommands = [MoveUnits exampleOptions [7] [QVector3D 20 0 0],
                      MoveUnits exampleOptions [7] [QVector3D 0 0 20]]"

section \<open>Evaluation on concrete states\<close>

lemmas example_defs = exampleConfig_def examplePathfinder_def plainUnit_def idleMovement_def
  exampleOptions_def

lemma cround_numeral [simp]: "cround (numeral n) = numeral n" "cround 0 = 0" "cround 1 = 1"
  by (simp_all add: cround_def)

lemma sqrt_49_16: "sqrt (49 / 16) = 7 / 4"
  by (rule real_sqrt_unique) (simp_all add: power2_eq_square)

lemma sqrt_900: "sqrt 900 = 30"
  by (rule real_sqrt_unique) (simp_all add: power2_eq_square)

lemma sqrt_quarter: "sqrt (1 / 4) = 1 / 2"
  by (rule real_sqrt_unique) (simp_all add: power2_eq_square)

lemma moveUnits_single: "moveUnits cfg opts [uid] [tgt] s = moveUnit cfg opts s (uid, tgt)"
  by (simp add: moveUnits_def moveUnitsLoop_def)

text \<open>
  The calls of \<^verbatim>\<open>moveUnits\<close> inside \<^verbatim>\<open>moveGroup\<close> pass \<^verbatim>\<open>groupMove = false\<close> and lists
  of equal length; such a call is the single-unit loop, which is how \<open>moveGroup\<close> is
  written above.
\<close>

lemma moveUnits_without_group:
  "\<not> groupMove opts \<Longrightarrow> length units = length targets \<Longrightarrow>
     moveUnits cfg opts units targets s = moveUnitsLoop cfg opts units targets s"
  by (simp add: moveUnits_def)

lemma moveUnitsLoop_Nil [simp]: "moveUnitsLoop cfg opts [] [] s = s"
  by (simp add: moveUnitsLoop_def)

lemmas moveUnit_eval = moveUnits_single moveUnit_def exitHoldMode_def matchPending_def
  cooldownContinue_def should_suppress_path_request_def alreadySatisfied_def resolveMove_def
  supersedeExisting_def snapToTarget_def putMovement_def clearPendingRequest_def worldToGrid_def
  manhattan_def fetch_add_def submitPathRequest_def QVector3D_def pathfinding_request_cooldown_def
  target_movement_threshold_sq_def same_target_threshold_sq_def Let_def

section \<open>The request counter\<close>

lemma allocations_eq:
  "allocations n c = (map (\<lambda>i. c + word_of_nat i) [0..<n], c + word_of_nat n)"
proof (induction n arbitrary: c)
  case 0
  show ?case by simp
next
  case (Suc n)
  have "map (\<lambda>i. c + word_of_nat i) [0..<Suc n] = c # map (\<lambda>i. (c + 1) + word_of_nat i) [0..<n]"
    by (simp add: upt_rec [of 0 "Suc n"] map_Suc_upt [symmetric] del: upt_Suc)
  then show ?case using Suc [of "c + 1"]
    by (simp add: fetch_add_def del: upt_Suc)
qed

lemma one_plus_word_of_nat_nonzero:
  assumes "i < 2 ^ 64 - 1"
  shows "(1 :: 64 word) + word_of_nat i \<noteq> 0"
proof
  assume "(1 :: 64 word) + word_of_nat i = 0"
  then have "(word_of_nat (Suc i) :: 64 word) = 0" by simp
  then have "(2 :: nat) ^ LENGTH(64) dvd Suc i"
    by (simp only: word_of_nat_eq_0_iff)
  then have "(2 :: nat) ^ LENGTH(64) \<le> Suc i" by (rule dvd_imp_le) simp
  with assms show False by simp
qed

lemma allocations_distinct:
  assumes "n \<le> 2 ^ 64"
  shows "distinct (fst (allocations n c))"
proof -
  have "inj_on (\<lambda>i. c + (word_of_nat i :: 64 word)) {0..<n}"
  proof (rule inj_onI)
    fix i j
    assume "i \<in> {0..<n}" "j \<in> {0..<n}"
      and eq: "c + (word_of_nat i :: 64 word) = c + word_of_nat j"
    then have "i < 2 ^ 64" "j < 2 ^ 64" using assms by auto
    moreover from eq have "(word_of_nat i :: 64 word) = word_of_nat j" by simp
    ultimately show "i = j"
      by (simp add: word_of_nat_eq_iff take_bit_nat_eq_self)
  qed
  then show ?thesis
    by (simp add: allocations_eq distinct_map)
qed

lemma allocations_nonzero_distinct:
  assumes "n < 2 ^ 64"
  shows "0 \<notin> set (fst (allocations n 1))" and "distinct (fst (allocations n 1))"
proof -
  show "0 \<notin> set (fst (allocations n 1))"
  proof
    assume "0 \<in> set (fst (allocations n 1))"
    then obtain i where "i < n" "(1 :: 64 word) + word_of_nat i = 0"
      by (auto simp: allocations_eq)
    with assms one_plus_word_of_nat_nonzero [of i] show False by simp
  qed
  show "distinct (fst (allocations n 1))"
    using assms by (intro allocations_distinct) simp
qed

section \<open>The single-unit move resolver\<close>

subsection \<open>What the steps leave alone\<close>

lemma clearPendingRequest_frame [simp]:
  "world (clearPendingRequest eid s) = world s"
  "s_pathfinder (clearPendingRequest eid s) = s_pathfinder s"
  "s_nextRequestId (clearPendingRequest eid s) = s_nextRequestId s"
  by (simp_all add: clearPendingRequest_def split: option.splits)

lemma eraseMembers_None: "e2r eid = None \<Longrightarrow> eraseMembers rid ms e2r eid = None"
  by (induction ms arbitrary: e2r) (simp_all add: remove_entry_def)

lemma clearPendingRequest_entry [simp]:
  "s_entityToRequest (clearPendingRequest eid s) eid = None"
  by (simp add: clearPendingRequest_def eraseMembers_None split: option.splits)

lemma clearPendingRequest_request:
  "s_entityToRequest s uid = Some rid \<Longrightarrow> s_pendingRequests (clearPendingRequest uid s) rid = None"
  by (simp add: clearPendingRequest_def split: option.splits)

lemma clearPendingRequest_request_None:
  "s_pendingRequests s rid = None \<Longrightarrow> s_pendingRequests (clearPendingRequest uid s) rid = None"
  by (simp add: clearPendingRequest_def split: option.splits)

lemma matchPending_frame [simp]:
  "world (snd (matchPending opts uid tx tz mv s)) = world s"
  "s_pathfinder (snd (matchPending opts uid tx tz mv s)) = s_pathfinder s"
  "s_nextRequestId (snd (matchPending opts uid tx tz mv s)) = s_nextRequestId s"
  by (simp_all add: matchPending_def Let_def split: option.splits)

lemma matchPending_world_indep:
  "fst (matchPending opts uid tx tz mv (s\<lparr>world := w\<rparr>)) = fst (matchPending opts uid tx tz mv s)"
  by (simp add: matchPending_def Let_def split: option.splits)

lemma matchPending_ledger:
  "s_pendingRequests (snd (matchPending opts uid tx tz mv (s\<lparr>world := w\<rparr>))) rid = None
     \<longleftrightarrow> s_pendingRequests s rid = None"
  "s_entityToRequest s uid = Some rid \<Longrightarrow>
     s_entityToRequest (snd (matchPending opts uid tx tz mv (s\<lparr>world := w\<rparr>))) uid = Some rid
     \<or> s_pendingRequests s rid = None"
  by (auto simp add: matchPending_def Let_def split: option.splits)

lemma supersedeExisting_frame [simp]:
  "world (snd (supersedeExisting opts uid tx tz s)) = world s"
  by (simp_all add: supersedeExisting_def Let_def split: option.splits)

lemma putMovement_frame [simp]:
  "s_pathfinder (putMovement uid mv s) = s_pathfinder s"
  "s_nextRequestId (putMovement uid mv s) = s_nextRequestId s"
  "s_entityToRequest (putMovement uid mv s) = s_entityToRequest s"
  "s_pendingRequests (putMovement uid mv s) = s_pendingRequests s"
  by (simp_all add: putMovement_def split: option.splits)

lemma putMovement_world:
  "world s uid = Some e \<Longrightarrow> world (putMovement uid mv s) uid = Some (e\<lparr>movement := Some mv\<rparr>)"
  by (simp add: putMovement_def)

lemma resolveMove_world [simp]:
  "world (snd (resolveMove cfg opts uid tgt tr mv s)) = world s"
  by (simp add: resolveMove_def Let_def fetch_add_def split: option.splits prod.splits)
     (metis supersedeExisting_frame snd_conv)

lemma cooldownContinue_goal [simp]:
  "cooldownContinue tx tz (mv\<lparr>goalX := a, goalY := b\<rparr>) = cooldownContinue tx tz mv"
  by (simp add: cooldownContinue_def should_suppress_path_request_def)

lemma alreadySatisfied_goal [simp]:
  "alreadySatisfied tx tz (mv\<lparr>goalX := a, goalY := b\<rparr>) = alreadySatisfied tx tz mv"
  by (simp add: alreadySatisfied_def)

lemma exitHoldMode_frame [simp]:
  "transform (exitHoldMode e) = transform e"
  "attack (exitHoldMode e) = attack e"
  "movement (exitHoldMode e) = movement e"
  "attackTarget (exitHoldMode e) = attackTarget e"
  "unit (exitHoldMode e) = unit e"
  "building (exitHoldMode e) = building e"
  by (simp_all add: exitHoldMode_def split: option.splits)

lemma moveUnit_entity:
  "world s uid = Some e \<Longrightarrow> world (moveUnit cfg opts s (uid, tgt)) uid \<noteq> None"
  by (simp add: moveUnit_def Let_def case_prod_beta putMovement_def split: option.splits)

lemma moveUnit_hasMovement:
  "hasMovement s uid' \<Longrightarrow> hasMovement (moveUnit cfg opts s ut) uid'"
  by (cases ut)
     (auto simp add: moveUnit_def Let_def case_prod_beta putMovement_def hasMovement_def
        split: option.splits if_splits)

lemma foldl_invariant:
  assumes "I acc" and "\<And>a x. I a \<Longrightarrow> I (f a x)"
  shows "I (foldl f acc xs)"
  using assms(1) by (induction xs arbitrary: acc) (simp_all add: assms(2))

lemma moveUnitsLoop_hasMovement:
  "hasMovement s uid' \<Longrightarrow> hasMovement (moveUnitsLoop cfg opts us ts s) uid'"
  unfolding moveUnitsLoop_def
  by (rule foldl_invariant [where I = "\<lambda>s. hasMovement s uid'"]) (simp_all add: moveUnit_hasMovement)

subsection \<open>The direct path\<close>

lemma resolveMove_direct:
  assumes "s_pathfinder s \<noteq> None"
    and "manhattan (worldToGrid (s_pathfinder s) (vec_x (position tr)) (vec_z (position tr)))
                   (worldToGrid (s_pathfinder s) (vec_x tgt) (vec_z tgt)) \<le> DIRECT_PATH_THRESHOLD cfg"
    and "allowDirectFallback opts"
  shows "snd (resolveMove cfg opts uid tgt tr mv s) = clearPendingRequest uid s"
    and "target_x (fst (resolveMove cfg opts uid tgt tr mv s)) = vec_x tgt"
    and "target_y (fst (resolveMove cfg opts uid tgt tr mv s)) = vec_z tgt"
    and "hasTarget (fst (resolveMove cfg opts uid tgt tr mv s))"
    and "path (fst (resolveMove cfg opts uid tgt tr mv s)) = []"
    and "\<not> pathPending (fst (resolveMove cfg opts uid tgt tr mv s))"
    and "pendingRequestId (fst (resolveMove cfg opts uid tgt tr mv s)) = 0"
proof -
  let ?startp = "worldToGrid (s_pathfinder s) (vec_x (position tr)) (vec_z (position tr))"
  let ?endp = "worldToGrid (s_pathfinder s) (vec_x tgt) (vec_z tgt)"
  from assms(1) obtain pf where pf: "s_pathfinder s = Some pf" by auto
  have eq: "resolveMove cfg opts uid tgt tr mv s =
      (if ?startp = ?endp then snapToTarget (vec_x tgt) (vec_z tgt) mv
       else (snapToTarget (vec_x tgt) (vec_z tgt) mv)
              \<lparr>timeSinceLastPathRequest := 0, lastGoalX := vec_x tgt, lastGoalY := vec_z tgt\<rparr>,
       clearPendingRequest uid s)"
    using assms(2,3) by (simp add: resolveMove_def Let_def pf)
  show "snd (resolveMove cfg opts uid tgt tr mv s) = clearPendingRequest uid s"
    and "target_x (fst (resolveMove cfg opts uid tgt tr mv s)) = vec_x tgt"
    and "target_y (fst (resolveMove cfg opts uid tgt tr mv s)) = vec_z tgt"
    and "hasTarget (fst (resolveMove cfg opts uid tgt tr mv s))"
    and "path (fst (resolveMove cfg opts uid tgt tr mv s)) = []"
    and "\<not> pathPending (fst (resolveMove cfg opts uid tgt tr mv s))"
    and "pendingRequestId (fst (resolveMove cfg opts uid tgt tr mv s)) = 0"
    by (simp_all add: eq snapToTarget_def)
qed

lemma moveUnit_pathfinder_direct:
  assumes "world s uid = Some e" and "transform e = Some tr" and "s_pathfinder s = Some pf"
    and "manhattan (worldToGrid (s_pathfinder s) (vec_x (position tr)) (vec_z (position tr)))
                   (worldToGrid (s_pathfinder s) (vec_x tgt) (vec_z tgt)) \<le> DIRECT_PATH_THRESHOLD cfg"
    and "allowDirectFallback opts"
  shows "s_pathfinder (moveUnit cfg opts s (uid, tgt)) = Some pf"
  using assms
  by (simp add: moveUnit_def Let_def case_prod_beta resolveMove_direct)

lemma moveUnit_direct:
  assumes "world s uid = Some e" and "transform e = Some tr" and "s_pathfinder s = Some pf"
    and "manhattan (worldToGrid (s_pathfinder s) (vec_x (position tr)) (vec_z (position tr)))
                   (worldToGrid (s_pathfinder s) (vec_x tgt) (vec_z tgt)) \<le> DIRECT_PATH_THRESHOLD cfg"
    and "allowDirectFallback opts"
    and "\<not> dropsCommand cfg opts uid tgt e s"
  shows "\<exists>e' mv'. world (moveUnit cfg opts s (uid, tgt)) uid = Some e' \<and> movement e' = Some mv'
           \<and> target_x mv' = vec_x tgt \<and> target_y mv' = vec_z tgt \<and> hasTarget mv'
           \<and> path mv' = [] \<and> \<not> pathPending mv' \<and> pendingRequestId mv' = 0"
    and "s_entityToRequest (moveUnit cfg opts s (uid, tgt)) uid = None"
  using assms
  by (simp_all add: moveUnit_def Let_def case_prod_beta resolveMove_direct dropsCommand_def
       movementOf_def matchPending_world_indep putMovement_world split: if_splits)

lemma moveUnit_direct_request:
  assumes "world s uid = Some e" and "transform e = Some tr" and "s_pathfinder s = Some pf"
    and "manhattan (worldToGrid (s_pathfinder s) (vec_x (position tr)) (vec_z (position tr)))
                   (worldToGrid (s_pathfinder s) (vec_x tgt) (vec_z tgt)) \<le> DIRECT_PATH_THRESHOLD cfg"
    and "allowDirectFallback opts"
    and "\<not> dropsCommand cfg opts uid tgt e s"
    and "s_entityToRequest s uid = Some rid"
  shows "s_pendingRequests (moveUnit cfg opts s (uid, tgt)) rid = None"
proof -
  let ?w = "(world s)(uid \<mapsto> (if clearAttackIntent opts
              then (exitHoldMode e)\<lparr>movement := Some (movementOf cfg e), attackTarget := None\<rparr>
              else (exitHoldMode e)\<lparr>movement := Some (movementOf cfg e)\<rparr>))"
  let ?s2 = "snd (matchPending opts uid (vec_x tgt) (vec_z tgt) (movementOf cfg e) (s\<lparr>world := ?w\<rparr>))"
  have res: "s_pendingRequests (clearPendingRequest uid ?s2) rid = None"
    using matchPending_ledger(2) [OF assms(7), of opts "vec_x tgt" "vec_z tgt" "movementOf cfg e" ?w]
    by (auto simp add: clearPendingRequest_request clearPendingRequest_request_None matchPending_ledger(1))
  show ?thesis
    using assms(1-6) res
    by (simp add: moveUnit_def Let_def case_prod_beta resolveMove_direct dropsCommand_def
       movementOf_def matchPending_world_indep split: if_splits)
qed

text \<open>
  Claim C4, as the code has it. Let one unit be commanded, let the pathfinder exist, let the
  entity exist with a transform, let the cells of its position and of the destination have
  Manhattan distance at most \<^verbatim>\<open>DIRECT_PATH_THRESHOLD\<close> and let \<^verbatim>\<open>allowDirectFallback\<close> be
  set. Then \<^verbatim>\<open>moveUnits\<close> leaves the pathfinder as it is: no request is submitted. And
  unless one of the earlier guards drops the command (melee lock, reuse of a pending
  request, cooldown, destination already targeted), the immediate target is the
  destination, \<open>hasTarget\<close> is true, the path is empty, the pending state is cleared, the
  entity has no entry in the entity-to-request map and the request that its entry named
  is gone from the ledger.
\<close>

theorem direct_path_no_request:
  assumes "world s uid = Some e" and "transform e = Some tr" and "s_pathfinder s = Some pf"
    and "manhattan (worldToGrid (s_pathfinder s) (vec_x (position tr)) (vec_z (position tr)))
                   (worldToGrid (s_pathfinder s) (vec_x tgt) (vec_z tgt)) \<le> DIRECT_PATH_THRESHOLD cfg"
    and "allowDirectFallback opts"
  shows "s_pathfinder (moveUnits cfg opts [uid] [tgt] s) = Some pf
       \<and> (\<not> dropsCommand cfg opts uid tgt e s \<longrightarrow>
            (\<exists>e' mv'. world (moveUnits cfg opts [uid] [tgt] s) uid = Some e' \<and> movement e' = Some mv'
               \<and> target_x mv' = vec_x tgt \<and> target_y mv' = vec_z tgt \<and> hasTarget mv'
               \<and> path mv' = [] \<and> \<not> pathPending mv' \<and> pendingRequestId mv' = 0)
            \<and> s_entityToRequest (moveUnits cfg opts [uid] [tgt] s) uid = None
            \<and> (\<forall>rid. s_entityToRequest s uid = Some rid
                        \<longrightarrow> s_pendingRequests (moveUnits cfg opts [uid] [tgt] s) rid = None))"
  unfolding moveUnits_single
  using moveUnit_pathfinder_direct [OF assms] moveUnit_direct [OF assms]
    moveUnit_direct_request [OF assms]
  by blast

theorem direct_path_no_request_witness:
  "s_entityToRequest (pendingOwner 1) 7 = Some 1
   \<and> \<not> dropsCommand exampleConfig exampleOptions 7 (QVector3D 7 0 5)
         (plainUnit 5 5 (idleMovement\<lparr>pathPending := True, pendingRequestId := 1\<rparr>)) (pendingOwner 1)
   \<and> s_pathfinder (moveUnits exampleConfig exampleOptions [7] [QVector3D 7 0 5] (pendingOwner 1))
       = Some examplePathfinder
   \<and> (\<exists>e' mv'. world (moveUnits exampleConfig exampleOptions [7] [QVector3D 7 0 5] (pendingOwner 1)) 7
                  = Some e' \<and> movement e' = Some mv'
         \<and> target_x mv' = 7 \<and> target_y mv' = 5 \<and> hasTarget mv'
         \<and> path mv' = [] \<and> \<not> pathPending mv' \<and> pendingRequestId mv' = 0)
   \<and> s_entityToRequest (moveUnits exampleConfig exampleOptions [7] [QVector3D 7 0 5] (pendingOwner 1)) 7
       = None
   \<and> s_pendingRequests (moveUnits exampleConfig exampleOptions [7] [QVector3D 7 0 5] (pendingOwner 1)) 1
       = None"
proof -
  let ?mc = "idleMovement\<lparr>pathPending := True, pendingRequestId := 1\<rparr>"
  let ?tr = "\<lparr>position = QVector3D 5 0 5, scale = QVector3D 1 1 1\<rparr>"
  have h1: "world (pendingOwner 1) 7 = Some (plainUnit 5 5 ?mc)"
    by (simp add: pendingOwner_def)
  have h2: "transform (plainUnit 5 5 ?mc) = Some ?tr"
    by (simp add: plainUnit_def)
  have h3: "s_pathfinder (pendingOwner 1) = Some examplePathfinder"
    by (simp add: pendingOwner_def)
  have h4: "manhattan (worldToGrid (s_pathfinder (pendingOwner 1)) (vec_x (position ?tr)) (vec_z (position ?tr)))
              (worldToGrid (s_pathfinder (pendingOwner 1)) (vec_x (QVector3D 7 0 5)) (vec_z (QVector3D 7 0 5)))
            \<le> DIRECT_PATH_THRESHOLD exampleConfig"
    by (simp add: pendingOwner_def worldToGrid_def manhattan_def QVector3D_def example_defs)
  have h5: "allowDirectFallback exampleOptions"
    by (simp add: exampleOptions_def)
  have e: "s_entityToRequest (pendingOwner 1) 7 = Some 1"
    by (simp add: pendingOwner_def)
  have nd: "\<not> dropsCommand exampleConfig exampleOptions 7 (QVector3D 7 0 5) (plainUnit 5 5 ?mc)
              (pendingOwner 1)"
    by (simp add: dropsCommand_def movementOf_def matchPending_def cooldownContinue_def
          should_suppress_path_request_def alreadySatisfied_def pendingOwner_def QVector3D_def
          pathfinding_request_cooldown_def same_target_threshold_sq_def example_defs)
  from direct_path_no_request [OF h1 h2 h3 h4 h5] nd e
  show ?thesis by (simp add: QVector3D_def)
qed

text \<open>
  The claim as stated fails for a unit that is locked in melee: the destination is two cells
  away and the direct fallback is allowed, yet the command is ignored and the unit gets no
  target.
\<close>

theorem melee_locked_unit_not_moved:
  "world meleeLocked 7 \<noteq> None \<and> s_pathfinder meleeLocked = Some examplePathfinder
   \<and> manhattan (worldToGrid (s_pathfinder meleeLocked) 0 0) (worldToGrid (s_pathfinder meleeLocked) 2 0)
        \<le> DIRECT_PATH_THRESHOLD exampleConfig
   \<and> allowDirectFallback exampleOptions
   \<and> moveUnits exampleConfig exampleOptions [7] [QVector3D 2 0 0] meleeLocked = meleeLocked
   \<and> movement (the (world meleeLocked 7)) = Some idleMovement
   \<and> hasTarget idleMovement = False"
  by (simp add: meleeLocked_def example_defs moveUnit_eval)

subsection \<open>The cooldown\<close>

text \<open>
  What holds of the cooldown: when the flag is set and the entity has a target or a pending
  request, the iteration ends with nothing changed but the hold mode, the attack intent
  and the recorded goal.
\<close>

lemma cooldown_with_target_or_pending:
  assumes "world s uid = Some e" and "transform e = Some tr"
    and "\<not> (case attack e of Some atk \<Rightarrow> inMeleeLock atk | None \<Rightarrow> False)"
    and "\<not> fst (matchPending opts uid (vec_x tgt) (vec_z tgt) (movementOf cfg e) s)"
    and "cooldownContinue (vec_x tgt) (vec_z tgt) (movementOf cfg e)"
  shows "s_pathfinder (moveUnit cfg opts s (uid, tgt)) = s_pathfinder s"
    and "s_nextRequestId (moveUnit cfg opts s (uid, tgt)) = s_nextRequestId s"
    and "s_pendingRequests (moveUnit cfg opts s (uid, tgt)) = s_pendingRequests s"
  using assms
  by (simp_all add: moveUnit_def Let_def case_prod_beta movementOf_def matchPending_world_indep)
     (simp_all add: matchPending_def Let_def split: option.splits if_splits)

text \<open>
  Claim C3 does not hold of the code. Entity 7 is idle (no target, no pending request); its
  last path request is half a second old and the new destination (11, 0) is one unit from
  the last requested goal (10, 0), so \<^verbatim>\<open>should_suppress_path_request\<close> is set. The flag is
  never read: \<^verbatim>\<open>moveUnits\<close> goes on, registers request 3 in the ledger and submits it.
\<close>

theorem cooldown_idle_unit_still_requests:
  "should_suppress_path_request 11 0
      (idleMovement\<lparr>timeSinceLastPathRequest := 1 / 2, lastGoalX := 10, lastGoalY := 0\<rparr>)
   \<and> s_pathfinder recentlyRequested = Some examplePathfinder
   \<and> s_pendingRequests recentlyRequested 3 = None
   \<and> s_pathfinder (moveUnits exampleConfig exampleOptions [7] [QVector3D 11 0 0] recentlyRequested)
       = Some (examplePathfinder\<lparr>submitted := [(3, \<lparr>pt_x = 0, pt_y = 0\<rparr>, \<lparr>pt_x = 11, pt_y = 0\<rparr>)]\<rparr>)
   \<and> s_pendingRequests (moveUnits exampleConfig exampleOptions [7] [QVector3D 11 0 0] recentlyRequested) 3
       = Some \<lparr>entity_id = 7, target = QVector3D 11 0 0, options = exampleOptions,
               groupMembers = [], groupTargets = []\<rparr>"
  by (simp add: recentlyRequested_def example_defs moveUnit_eval)

section \<open>Attack-target positioning\<close>

lemma desired_distance_attacker:
  "attack e' = attack e \<Longrightarrow> desired_distance e' te t_trans = desired_distance e te t_trans"
  by (simp add: desired_distance_def effectiveRange_def is_ranged_unit_def)

text \<open>
  Claim C8, as the code has it. Let an attacker be ordered to chase a target (another
  entity), both with a transform, and let its distance to the target be at most the
  stand-off distance plus the margin 0.15. Then \<^verbatim>\<open>attack_target\<close> takes the target's own
  position as the position to reach and issues the move all the same: \<^verbatim>\<open>moveUnits\<close> is
  called for the attacker with that position (line 941). To the state that this call
  returns, lines 949-954 write the position into the attacker's movement component: the
  immediate target and the goal are the target's position, \<open>hasTarget\<close> is true and the
  path is empty.
\<close>

theorem attack_in_range_moves_to_target:
  assumes "tid \<noteq> 0" and "tid \<noteq> uid"
    and "world s uid = Some e" and "transform e = Some att_trans"
    and "world s tid = Some te" and "transform te = Some t_trans"
    and "attack_distance t_trans att_trans \<le> desired_distance e te t_trans + 3 / 20"
  shows "\<exists>s2 e2.
           s2 = moveUnits cfg ((defaultMoveOptions cfg)\<lparr>clearAttackIntent := False,
                                                         allowDirectFallback := True\<rparr>)
                  [uid] [QVector3D (vec_x (position t_trans)) 0 (vec_z (position t_trans))]
                  (s\<lparr>world := (world s)(uid \<mapsto> (exitHoldMode e)
                         \<lparr>attackTarget := Some \<lparr>target_id = tid, shouldChase = True\<rparr>\<rparr>)\<rparr>)
         \<and> world s2 uid = Some e2
         \<and> attack_target cfg [uid] tid True s
             = s2\<lparr>world := (world s2)(uid \<mapsto> e2\<lparr>movement := Some ((movementOf cfg e2)
                   \<lparr>target_x := vec_x (position t_trans), target_y := vec_z (position t_trans),
                    goalX := vec_x (position t_trans), goalY := vec_z (position t_trans),
                    hasTarget := True, path := []\<rparr>)\<rparr>)\<rparr>
         \<and> (\<exists>e' mv'. world (attack_target cfg [uid] tid True s) uid = Some e'
               \<and> movement e' = Some mv'
               \<and> hasTarget mv' \<and> target_x mv' = vec_x (position t_trans)
               \<and> target_y mv' = vec_z (position t_trans)
               \<and> goalX mv' = vec_x (position t_trans) \<and> goalY mv' = vec_z (position t_trans)
               \<and> path mv' = [])"
proof -
  let ?e = "(exitHoldMode e)\<lparr>attackTarget := Some \<lparr>target_id = tid, shouldChase = True\<rparr>\<rparr>"
  let ?s1 = "s\<lparr>world := (world s)(uid \<mapsto> ?e)\<rparr>"
  have dd: "desired_distance ?e te t_trans = desired_distance e te t_trans"
    by (rule desired_distance_attacker) simp
  have dpos: "desired_pos ?e te t_trans att_trans
                = QVector3D (vec_x (position t_trans)) 0 (vec_z (position t_trans))"
    using assms(7) by (simp add: desired_pos_def Let_def dd attack_distance_def)
  let ?dpos = "QVector3D (vec_x (position t_trans)) 0 (vec_z (position t_trans))"
  let ?opts = "(defaultMoveOptions cfg)\<lparr>clearAttackIntent := False, allowDirectFallback := True\<rparr>"
  have "world ?s1 uid = Some ?e" by simp
  from moveUnit_entity [OF this, of cfg ?opts ?dpos]
  obtain e2 where e2: "world (moveUnit cfg ?opts ?s1 (uid, ?dpos)) uid = Some e2" by auto
  show ?thesis
    using assms(1-6) e2
    by (simp add: attack_target_def attackUnit_def Let_def dpos moveUnits_single QVector3D_def
          movementOf_def)
qed

lemmas attack_eval = attack_target_def attackUnit_def attack_distance_def desired_distance_def
  desired_pos_def effectiveRange_def is_ranged_unit_def vlength_def lengthSquared_def vsub_def

theorem attack_in_range_moves_to_target_witness:
  "attack_distance \<lparr>position = QVector3D (7 / 4) 0 0, scale = QVector3D 1 1 1\<rparr>
                   \<lparr>position = QVector3D 0 0 0, scale = QVector3D 1 1 1\<rparr>
     \<le> desired_distance (plainUnit 0 0 idleMovement) (plainUnit (7 / 4) 0 idleMovement)
         \<lparr>position = QVector3D (7 / 4) 0 0, scale = QVector3D 1 1 1\<rparr> + 3 / 20
   \<and> (\<exists>e' mv'. world (attack_target exampleConfig [7] 8 True attackerAndTarget) 7 = Some e'
         \<and> movement e' = Some mv' \<and> hasTarget mv' \<and> target_x mv' = 7 / 4 \<and> target_y mv' = 0
         \<and> goalX mv' = 7 / 4 \<and> goalY mv' = 0 \<and> path mv' = [])"
proof -
  let ?att = "\<lparr>position = QVector3D 0 0 0, scale = QVector3D 1 1 1\<rparr>"
  let ?tt = "\<lparr>position = QVector3D (7 / 4) 0 0, scale = QVector3D 1 1 1\<rparr>"
  have h1: "(8 :: EntityID) \<noteq> 0" by simp
  have h2: "(8 :: EntityID) \<noteq> 7" by simp
  have h3: "world attackerAndTarget 7 = Some (plainUnit 0 0 idleMovement)"
    by (simp add: attackerAndTarget_def)
  have h4: "transform (plainUnit 0 0 idleMovement) = Some ?att"
    by (simp add: plainUnit_def)
  have h5: "world attackerAndTarget 8 = Some (plainUnit (7 / 4) 0 idleMovement)"
    by (simp add: attackerAndTarget_def)
  have h6: "transform (plainUnit (7 / 4) 0 idleMovement) = Some ?tt"
    by (simp add: plainUnit_def)
  have h7: "attack_distance ?tt ?att
     \<le> desired_distance (plainUnit 0 0 idleMovement) (plainUnit (7 / 4) 0 idleMovement) ?tt + 3 / 20"
    by (simp add: attack_eval plainUnit_def QVector3D_def sqrt_49_16)
  from attack_in_range_moves_to_target [where cfg = exampleConfig, OF h1 h2 h3 h4 h5 h6 h7] h7
  show ?thesis by (simp add: QVector3D_def) blast
qed

text \<open>
  The claim as stated fails. The attacker stands 1.75 from its target, within 0.15 of the
  stand-off distance 1.8, and has no target. After \<^verbatim>\<open>attack_target\<close> its movement
  component has the target's position as immediate target and \<open>hasTarget\<close> is true.
\<close>

theorem attack_in_range_reissues_movement:
  "\<bar>attack_distance \<lparr>position = QVector3D (7 / 4) 0 0, scale = QVector3D 1 1 1\<rparr>
                     \<lparr>position = QVector3D 0 0 0, scale = QVector3D 1 1 1\<rparr>
     - desired_distance (plainUnit 0 0 idleMovement) (plainUnit (7 / 4) 0 idleMovement)
         \<lparr>position = QVector3D (7 / 4) 0 0, scale = QVector3D 1 1 1\<rparr>\<bar> \<le> 3 / 20
   \<and> world attackerAndTarget 7 = Some (plainUnit 0 0 idleMovement)
   \<and> hasTarget idleMovement = False
   \<and> world (attack_target exampleConfig [7] 8 True attackerAndTarget) 7
       = Some ((plainUnit 0 0 (idleMovement\<lparr>goalX := 7 / 4, target_x := 7 / 4, hasTarget := True,
                                  timeSinceLastPathRequest := 0, lastGoalX := 7 / 4\<rparr>))
                \<lparr>attackTarget := Some \<lparr>target_id = 8, shouldChase = True\<rparr>\<rparr>)"
  by (simp add: attackerAndTarget_def example_defs moveUnit_eval attack_eval sqrt_49_16 cround_def)

section \<open>The reconciler\<close>

lemma apply_to_member_other:
  "j \<noteq> i \<Longrightarrow> apply_to_member cfg pfo r req i t off w j = w j"
  by (simp add: apply_to_member_def split: option.splits)

lemma apply_to_member_at:
  "apply_to_member cfg pfo r req i t off w i =
     (case w i of None \<Rightarrow> None
      | Some e \<Rightarrow> (case movement e of None \<Rightarrow> Some e
          | Some mc \<Rightarrow> (case transform e of None \<Rightarrow> Some e
              | Some tr \<Rightarrow> Some (e\<lparr>movement := Some (applyPath cfg pfo r req t off tr mc)\<rparr>))))"
  by (simp add: apply_to_member_def split: option.splits)

text \<open>An entity that is already in \<^verbatim>\<open>processed\<close> is not touched by the remaining calls.\<close>

lemma add_members_processed:
  "List.member processed j \<Longrightarrow> add_members cfg pfo r req calls processed w j = w j"
proof (induction calls arbitrary: processed w)
  case Nil
  show ?case by simp
next
  case (Cons c calls)
  show ?case
  proof (cases "List.member processed (fst c)")
    case True
    with Cons show ?thesis by simp
  next
    case False
    with Cons.prems have ne: "j \<noteq> fst c" by auto
    from Cons.prems have "List.member (processed @ [fst c]) j" by simp
    from Cons.IH [OF this] False ne show ?thesis
      by (simp add: apply_to_member_other)
  qed
qed

text \<open>
  An entity gets the lambda applied once, with the target of its first call
  (\<open>map_of\<close> returns the first pair of a key).
\<close>

lemma add_members_first:
  "map_of calls i = Some t \<Longrightarrow> \<not> List.member processed i \<Longrightarrow>
   add_members cfg pfo r req calls processed w i
     = apply_to_member cfg pfo r req i t (vsub t (target req)) w i"
proof (induction calls arbitrary: processed w)
  case Nil
  then show ?case by simp
next
  case (Cons c calls)
  show ?case
  proof (cases "fst c = i")
    case True
    with Cons.prems have t: "snd c = t" by (cases c) simp
    have "List.member (processed @ [i]) i" by simp
    from add_members_processed [OF this] True t Cons.prems(2) show ?thesis by simp
  next
    case False
    with Cons.prems have rest: "map_of calls i = Some t" by (cases c) (simp split: if_splits)
    show ?thesis
    proof (cases "List.member processed (fst c)")
      case True
      with Cons.IH [OF rest Cons.prems(2)] show ?thesis by simp
    next
      case nm: False
      from Cons.prems(2) False have "\<not> List.member (processed @ [fst c]) i" by auto
      from Cons.IH [OF rest this] nm False show ?thesis
        by (simp add: apply_to_member_at apply_to_member_other)
    qed
  qed
qed

lemma processResult_world_listed:
  assumes "s_pendingRequests s (request_id r) = Some req"
    and "map_of (addMemberCalls req) eid = Some tgt"
  shows "world (processResult cfg s r) eid
       = apply_to_member cfg (s_pathfinder s) r req eid tgt (vsub tgt (target req)) (world s) eid"
  using assms by (simp add: processResult_def add_members_first)

lemma processResult_pathfinder: "s_pathfinder (processResult cfg s r) = s_pathfinder s"
  by (simp add: processResult_def split: option.splits)

lemma processResult_consumed:
  "s_pendingRequests (processResult cfg s r) (request_id r) = None"
  by (simp add: processResult_def split: option.splits)

text \<open>
  Claim C2, as the code has it. Let a result be processed whose ledger entry lists the
  entity \<open>eid\<close> (as owner or as group member), and let the entity's movement component not
  be pending that request. Then the reconciler changes nothing of the movement component
  but the two fields \<open>pathPending\<close> and \<open>pendingRequestId\<close>, which it sets to
  \<open>False\<close> and 0 (lines 751-756) when the entity has a transform; without a transform
  the component is left as it is.
\<close>

theorem reconciler_skip_clears_pending_only:
  assumes "s_pendingRequests s (request_id r) = Some req"
    and "map_of (addMemberCalls req) eid = Some tgt"
    and "world s eid = Some e" and "movement e = Some mc"
    and "\<not> pathPending mc \<or> pendingRequestId mc \<noteq> request_id r"
  shows "world (processResult cfg s r) eid
       = Some (e\<lparr>movement := Some (if transform e = None then mc
                                     else mc\<lparr>pathPending := False, pendingRequestId := 0\<rparr>)\<rparr>)"
  using assms
  by (auto simp add: processResult_world_listed apply_to_member_at applyPath_def split: option.splits)

theorem reconciler_skip_clears_pending_only_witness:
  "pendingRequestId (idleMovement\<lparr>pathPending := True, pendingRequestId := 2\<rparr>) \<noteq> request_id exampleResult
   \<and> world (processResult exampleConfig (pendingOwner 2) exampleResult) 7
       = Some (plainUnit 5 5 (idleMovement\<lparr>pathPending := False, pendingRequestId := 0\<rparr>))"
proof -
  let ?mc = "idleMovement\<lparr>pathPending := True, pendingRequestId := 2\<rparr>"
  let ?req = "\<lparr>entity_id = 7, target = QVector3D 5 0 5,
        options = \<lparr>groupMove = False, clearAttackIntent = True, allowDirectFallback = True\<rparr>,
        groupMembers = [], groupTargets = []\<rparr>"
  have h1: "s_pendingRequests (pendingOwner 2) (request_id exampleResult) = Some ?req"
    by (simp add: pendingOwner_def exampleResult_def example_defs)
  have h2: "map_of (addMemberCalls ?req) 7 = Some (QVector3D 5 0 5)"
    by (simp add: addMemberCalls_def)
  have h3: "world (pendingOwner 2) 7 = Some (plainUnit 5 5 ?mc)"
    by (simp add: pendingOwner_def)
  have h4: "movement (plainUnit 5 5 ?mc) = Some ?mc"
    by (simp add: plainUnit_def)
  have h5: "\<not> pathPending ?mc \<or> pendingRequestId ?mc \<noteq> request_id exampleResult"
    by (simp add: exampleResult_def)
  from reconciler_skip_clears_pending_only [where cfg = exampleConfig, OF h1 h2 h3 h4 h5] h5
  show ?thesis by (simp add: plainUnit_def)
qed

text \<open>
  The claim as stated (no field is changed) fails: entity 7 is listed by request 1 while
  its movement component waits for request 2; processing the result of request 1 clears
  \<open>pathPending\<close> and \<open>pendingRequestId\<close> of the entity.
\<close>

theorem reconciler_skip_mutates:
  "s_pendingRequests (pendingOwner 2) (request_id exampleResult) \<noteq> None
   \<and> world (pendingOwner 2) 7
       = Some (plainUnit 5 5 (idleMovement\<lparr>pathPending := True, pendingRequestId := 2\<rparr>))
   \<and> pendingRequestId (idleMovement\<lparr>pathPending := True, pendingRequestId := 2\<rparr>)
       \<noteq> request_id exampleResult
   \<and> world (processResult exampleConfig (pendingOwner 2) exampleResult) 7
       = Some (plainUnit 5 5 (idleMovement\<lparr>pathPending := False, pendingRequestId := 0\<rparr>))
   \<and> idleMovement\<lparr>pathPending := False, pendingRequestId := 0\<rparr>
       \<noteq> idleMovement\<lparr>pathPending := True, pendingRequestId := 2\<rparr>"
  by (simp add: processResult_def addMemberCalls_def apply_to_member_def applyPath_def
        pendingOwner_def exampleResult_def example_defs)

text \<open>
  Claim C6. Processing a result a second time, or any result with the same request id,
  changes nothing: neither the world nor the ledger. The ledger entry was removed when it
  was first consumed. This holds for one pass over a result, for a second call of
  \<open>processPathResults\<close> with the same result, and for a batch that holds the result twice.
\<close>

theorem reconcile_twice_no_effect:
  "request_id r' = request_id r \<Longrightarrow>
     processResult cfg (processResult cfg s r) r' = processResult cfg s r
     \<and> processPathResults cfg [r'] (processPathResults cfg [r] s) = processPathResults cfg [r] s
     \<and> processPathResults cfg [r, r'] s = processPathResults cfg [r] s"
proof -
  assume same: "request_id r' = request_id r"
  have "s_pendingRequests (processResult cfg s r) (request_id r') = None"
    using same by (simp add: processResult_consumed)
  then have one: "processResult cfg (processResult cfg s r) r' = processResult cfg s r"
    by (simp add: processResult_def [of cfg "processResult cfg s r" r'])
  then show ?thesis
    by (simp add: processPathResults_def processResult_pathfinder split: option.splits)
qed

theorem reconcile_twice_no_effect_witness:
  "s_pendingRequests (pendingOwner 1) (request_id exampleResult) \<noteq> None
   \<and> processResult exampleConfig (pendingOwner 1) exampleResult \<noteq> pendingOwner 1
   \<and> processResult exampleConfig (processResult exampleConfig (pendingOwner 1) exampleResult) exampleResult
       = processResult exampleConfig (pendingOwner 1) exampleResult"
proof -
  have "s_pendingRequests (processResult exampleConfig (pendingOwner 1) exampleResult) 1 = None"
    by (simp add: processResult_def pendingOwner_def exampleResult_def example_defs)
  moreover have "s_pendingRequests (pendingOwner 1) 1 \<noteq> None"
    by (simp add: pendingOwner_def exampleResult_def example_defs)
  ultimately have ne: "processResult exampleConfig (pendingOwner 1) exampleResult \<noteq> pendingOwner 1"
    by metis
  have "s_pendingRequests (pendingOwner 1) (request_id exampleResult) \<noteq> None"
    by (simp add: pendingOwner_def exampleResult_def example_defs)
  with ne reconcile_twice_no_effect [of exampleResult exampleResult exampleConfig "pendingOwner 1"]
  show ?thesis by simp
qed

text \<open>
  The calls of \<^verbatim>\<open>add_member\<close> in terms of the lists of the request: the member at index
  \<open>i\<close> that does not occur before \<open>i\<close> is called with the target at index \<open>i\<close>, or with the
  request's target when there is none.
\<close>

lemma memberTargets_first:
  "i < length ms \<Longrightarrow> ms ! i = eid \<Longrightarrow> eid \<notin> set (take i ms) \<Longrightarrow>
   map_of (memberTargets lt ms ts) eid = Some (if i < length ts then ts ! i else lt)"
proof (induction lt ms ts arbitrary: i rule: memberTargets.induct)
  case (1 lt ts)
  then show ?case by simp
next
  case (2 lt m ms)
  then show ?case by (cases i) auto
next
  case (3 lt m ms t ts)
  then show ?case by (cases i) auto
qed

lemma addMemberCalls_listed:
  assumes "eid = entity_id req \<and> tgt = target req
         \<or> i < length (groupMembers req) \<and> groupMembers req ! i = eid \<and> eid \<noteq> entity_id req
           \<and> eid \<notin> set (take i (groupMembers req))
           \<and> tgt = (if i < length (groupTargets req) then groupTargets req ! i else target req)"
  shows "map_of (addMemberCalls req) eid = Some tgt"
  using assms by (auto simp add: addMemberCalls_def memberTargets_first)

text \<open>
  Claim C9, as the code has it. Let a result be processed whose ledger entry \<open>req\<close> names
  the entity \<open>eid\<close>, either as the owner (its destination is the request's target) or as
  the group member at index \<open>i\<close>, first at that index and not the owner (its destination
  is the group target at index \<open>i\<close>, or the request's target when that list is shorter).
  Let the entity still be pending that request, and let no waypoint remain after the start
  cell is left out, the other cells are shifted by the entity's offset and the leading
  waypoints near the entity are pruned. Then the reconciler clears the pending state, the
  path and the velocity, sets the goal to the destination and decides by the options
  stored in the ledger entry at that moment: if they allow the direct fallback, the
  immediate target is the destination and \<open>hasTarget\<close> is true; otherwise \<open>hasTarget\<close> is
  false. The stored options are those of the latest \<^verbatim>\<open>moveUnits\<close> call that reused the
  request (lines 173 and 278), which need not be the options the request was created with.
\<close>

theorem reconciler_empty_path_fallback:
  assumes "s_pendingRequests s (request_id r) = Some req"
    and "eid = entity_id req \<and> tgt = target req
         \<or> i < length (groupMembers req) \<and> groupMembers req ! i = eid \<and> eid \<noteq> entity_id req
           \<and> eid \<notin> set (take i (groupMembers req))
           \<and> tgt = (if i < length (groupTargets req) then groupTargets req ! i else target req)"
    and "world s eid = Some e" and "movement e = Some mc" and "transform e = Some tr"
    and "pathPending mc" and "pendingRequestId mc = request_id r"
    and "length (result_path r) \<le> 1
         \<or> pruneLeading (WAYPOINT_SKIP_THRESHOLD_SQ cfg) (position tr)
              (map (\<lambda>pt. (vec_x (gridToWorld (s_pathfinder s) pt) + (vec_x tgt - vec_x (target req)),
                          vec_z (gridToWorld (s_pathfinder s) pt) + (vec_z tgt - vec_z (target req))))
                 (drop 1 (result_path r))) = []"
  shows "world (processResult cfg s r) eid
           = Some (e\<lparr>movement := Some
               (if allowDirectFallback (options req)
                then mc\<lparr>pathPending := False, pendingRequestId := 0, path := [],
                        goalX := vec_x tgt, goalY := vec_z tgt, vx := 0, vz := 0,
                        target_x := vec_x tgt, target_y := vec_z tgt, hasTarget := True\<rparr>
                else mc\<lparr>pathPending := False, pendingRequestId := 0, path := [],
                        goalX := vec_x tgt, goalY := vec_z tgt, vx := 0, vz := 0,
                        hasTarget := False\<rparr>)\<rparr>)"
proof -
  have listed: "map_of (addMemberCalls req) eid = Some tgt"
    using assms(2) by (rule addMemberCalls_listed)
  have rem: "remainingWaypoints cfg (s_pathfinder s) r (vsub tgt (target req)) tr = []"
    using assms(8) by (auto simp add: remainingWaypoints_def offsetWaypoints_def vsub_def QVector3D_def)
  show ?thesis
    using assms(1,3-7) rem
    by (simp add: processResult_world_listed [OF assms(1) listed] apply_to_member_at applyPath_def)
qed

theorem reconciler_empty_path_fallback_witness:
  "s_pendingRequests formedGroup (request_id groupResult)
     = Some \<lparr>entity_id = 7, target = QVector3D 30 0 0, options = groupOptions,
             groupMembers = [7, 8], groupTargets = [QVector3D 30 0 0, QVector3D 30 0 1]\<rparr>
   \<and> [7, 8] ! 1 = (8 :: EntityID) \<and> (8 :: EntityID) \<notin> set (take 1 [7, 8])
   \<and> allowDirectFallback groupOptions
   \<and> world (processResult exampleConfig formedGroup groupResult) 8
       = Some (plainUnit 0 1 (idleMovement\<lparr>goalX := 30, goalY := 1, target_x := 30, target_y := 1,
                 hasTarget := True, timeSinceLastPathRequest := 0, lastGoalX := 30, lastGoalY := 1\<rparr>))"
proof -
  let ?mc = "idleMovement\<lparr>goalX := 30, goalY := 1, target_y := 1, pathPending := True,
               pendingRequestId := 3, timeSinceLastPathRequest := 0, lastGoalX := 30, lastGoalY := 1\<rparr>"
  let ?tr = "\<lparr>position = QVector3D 0 0 1, scale = QVector3D 1 1 1\<rparr>"
  let ?req = "\<lparr>entity_id = 7, target = QVector3D 30 0 0, options = groupOptions,
        groupMembers = [7, 8], groupTargets = [QVector3D 30 0 0, QVector3D 30 0 1]\<rparr>"
  have h1: "s_pendingRequests formedGroup (request_id groupResult) = Some ?req"
    by (simp add: formedGroup_def groupResult_def)
  have h2: "(8 :: EntityID) = entity_id ?req \<and> QVector3D 30 0 1 = target ?req
         \<or> 1 < length (groupMembers ?req) \<and> groupMembers ?req ! 1 = 8 \<and> 8 \<noteq> entity_id ?req
           \<and> 8 \<notin> set (take 1 (groupMembers ?req))
           \<and> QVector3D 30 0 1 = (if 1 < length (groupTargets ?req) then groupTargets ?req ! 1
                                  else target ?req)"
    by simp
  have h3: "world formedGroup 8 = Some (plainUnit 0 1 ?mc)"
    by (simp add: formedGroup_def)
  have h4: "movement (plainUnit 0 1 ?mc) = Some ?mc"
    by (simp add: plainUnit_def)
  have h5: "transform (plainUnit 0 1 ?mc) = Some ?tr"
    by (simp add: plainUnit_def)
  have h6: "pathPending ?mc" by simp
  have h7: "pendingRequestId ?mc = request_id groupResult"
    by (simp add: groupResult_def)
  have h8: "length (result_path groupResult) \<le> 1
         \<or> pruneLeading (WAYPOINT_SKIP_THRESHOLD_SQ exampleConfig) (position ?tr)
              (map (\<lambda>pt. (vec_x (gridToWorld (s_pathfinder formedGroup) pt)
                            + (vec_x (QVector3D 30 0 1) - vec_x (target ?req)),
                          vec_z (gridToWorld (s_pathfinder formedGroup) pt)
                            + (vec_z (QVector3D 30 0 1) - vec_z (target ?req))))
                 (drop 1 (result_path groupResult))) = []"
    by (simp add: gridToWorld_def QVector3D_def formedGroup_def groupResult_def example_defs)
  from reconciler_empty_path_fallback [where cfg = exampleConfig, OF h1 h2 h3 h4 h5 h6 h7 h8] h1
  show ?thesis by (simp add: QVector3D_def groupOptions_def plainUnit_def idleMovement_def)
qed

text \<open>
  The claim as stated (the options of the original request decide) fails. Unit 7 is sent
  to (30, 0) with options that allow the direct fallback: request 3 is created with them.
  The same destination is commanded again with options that forbid the fallback: no new
  request is submitted, the options stored with request 3 are overwritten (line 173). The
  result of request 3 has no waypoint: reconciled right after the first command the unit
  gets its destination as target, reconciled after the second it is left with \<open>hasTarget\<close>
  false, although the request was created with the fallback allowed.
\<close>

theorem reconciler_fallback_follows_latest_options:
  "allowDirectFallback exampleOptions
   \<and> s_pendingRequests (moveUnits exampleConfig exampleOptions [7] [QVector3D 30 0 0] freeUnit) 3
       = Some \<lparr>entity_id = 7, target = QVector3D 30 0 0, options = exampleOptions,
               groupMembers = [], groupTargets = []\<rparr>
   \<and> s_pendingRequests
        (moveUnits exampleConfig noFallbackOptions [7] [QVector3D 30 0 0]
           (moveUnits exampleConfig exampleOptions [7] [QVector3D 30 0 0] freeUnit)) 3
       = Some \<lparr>entity_id = 7, target = QVector3D 30 0 0, options = noFallbackOptions,
               groupMembers = [], groupTargets = []\<rparr>
   \<and> s_pathfinder
        (moveUnits exampleConfig noFallbackOptions [7] [QVector3D 30 0 0]
           (moveUnits exampleConfig exampleOptions [7] [QVector3D 30 0 0] freeUnit))
       = Some (examplePathfinder\<lparr>submitted := [(3, \<lparr>pt_x = 0, pt_y = 0\<rparr>, \<lparr>pt_x = 30, pt_y = 0\<rparr>)]\<rparr>)
   \<and> result_path emptyResult = []
   \<and> world (processResult exampleConfig
              (moveUnits exampleConfig exampleOptions [7] [QVector3D 30 0 0] freeUnit) emptyResult) 7
       = Some (plainUnit 0 0 (idleMovement\<lparr>goalX := 30, target_x := 30, hasTarget := True,
                                timeSinceLastPathRequest := 0, lastGoalX := 30\<rparr>))
   \<and> world (processResult exampleConfig
              (moveUnits exampleConfig noFallbackOptions [7] [QVector3D 30 0 0]
                 (moveUnits exampleConfig exampleOptions [7] [QVector3D 30 0 0] freeUnit)) emptyResult) 7
       = Some (plainUnit 0 0 (idleMovement\<lparr>goalX := 30, hasTarget := False,
                                timeSinceLastPathRequest := 0, lastGoalX := 30\<rparr>))"
proof -
  have s1: "moveUnits exampleConfig exampleOptions [7] [QVector3D 30 0 0] freeUnit
    = \<lparr>world = [7 \<mapsto> plainUnit 0 0 (idleMovement\<lparr>goalX := 30, pathPending := True,
                    pendingRequestId := 3, timeSinceLastPathRequest := 0, lastGoalX := 30\<rparr>)],
       s_pathfinder = Some (examplePathfinder\<lparr>submitted :=
                        [(3, \<lparr>pt_x = 0, pt_y = 0\<rparr>, \<lparr>pt_x = 30, pt_y = 0\<rparr>)]\<rparr>),
       s_pendingRequests = [3 \<mapsto> \<lparr>entity_id = 7, target = QVector3D 30 0 0, options = exampleOptions,
                                   groupMembers = [], groupTargets = []\<rparr>],
       s_entityToRequest = [7 \<mapsto> 3],
       s_nextRequestId = 4\<rparr>"
    by (simp add: freeUnit_def example_defs moveUnit_eval)
  have s2: "moveUnits exampleConfig noFallbackOptions [7] [QVector3D 30 0 0]
              (moveUnits exampleConfig exampleOptions [7] [QVector3D 30 0 0] freeUnit)
    = \<lparr>world = [7 \<mapsto> plainUnit 0 0 (idleMovement\<lparr>goalX := 30, pathPending := True,
                    pendingRequestId := 3, timeSinceLastPathRequest := 0, lastGoalX := 30\<rparr>)],
       s_pathfinder = Some (examplePathfinder\<lparr>submitted :=
                        [(3, \<lparr>pt_x = 0, pt_y = 0\<rparr>, \<lparr>pt_x = 30, pt_y = 0\<rparr>)]\<rparr>),
       s_pendingRequests = [3 \<mapsto> \<lparr>entity_id = 7, target = QVector3D 30 0 0, options = noFallbackOptions,
                                   groupMembers = [], groupTargets = []\<rparr>],
       s_entityToRequest = [7 \<mapsto> 3],
       s_nextRequestId = 4\<rparr>"
    unfolding s1 by (simp add: noFallbackOptions_def example_defs moveUnit_eval)
  show ?thesis
    unfolding s2 unfolding s1
    by (simp add: processResult_def addMemberCalls_def apply_to_member_def applyPath_def
          remainingWaypoints_def emptyResult_def noFallbackOptions_def example_defs
          QVector3D_def)
qed

section \<open>The group move resolver\<close>

subsection \<open>The member-building loop\<close>

lemma movementKept_refl: "movementKept cfg s s"
  by (simp add: movementKept_def split: option.splits)

lemma movementKept_trans:
  assumes "movementKept cfg s s'" and "movementKept cfg s' s''"
  shows "movementKept cfg s s''"
  unfolding movementKept_def
proof
  fix uid
  from assms(1) have a: "case world s uid of None \<Rightarrow> world s' uid = None
      | Some e \<Rightarrow> (case world s' uid of None \<Rightarrow> False
          | Some e' \<Rightarrow> movement e' = movement e
                       \<or> (movement e = None \<and> movement e' = Some (newMovementComponent cfg)))"
    unfolding movementKept_def by (rule spec)
  from assms(2) have b: "case world s' uid of None \<Rightarrow> world s'' uid = None
      | Some e \<Rightarrow> (case world s'' uid of None \<Rightarrow> False
          | Some e' \<Rightarrow> movement e' = movement e
                       \<or> (movement e = None \<and> movement e' = Some (newMovementComponent cfg)))"
    unfolding movementKept_def by (rule spec)
  from a b
  show "case world s uid of None \<Rightarrow> world s'' uid = None
      | Some e \<Rightarrow> (case world s'' uid of None \<Rightarrow> False
          | Some e' \<Rightarrow> movement e' = movement e
                       \<or> (movement e = None \<and> movement e' = Some (newMovementComponent cfg)))"
    by (auto split: option.splits)
qed

lemma buildMember_frame:
  "s_pathfinder (fst (buildMember cfg opts (s, ms) ut)) = s_pathfinder s"
  "s_nextRequestId (fst (buildMember cfg opts (s, ms) ut)) = s_nextRequestId s"
  "s_entityToRequest (fst (buildMember cfg opts (s, ms) ut)) = s_entityToRequest s"
  "s_pendingRequests (fst (buildMember cfg opts (s, ms) ut)) = s_pendingRequests s"
  by (simp_all add: buildMember_def Let_def split: option.splits)

lemma buildMember_movementKept:
  "movementKept cfg s (fst (buildMember cfg opts (s, ms) ut))"
  by (auto simp add: buildMember_def Let_def movementKept_def split: option.splits)

lemma buildMember_hasMovement_keep:
  "hasMovement s uid \<Longrightarrow> hasMovement (fst (buildMember cfg opts (s, ms) ut)) uid"
  by (auto simp add: buildMember_def Let_def hasMovement_def split: option.splits)

lemma buildMember_members:
  "snd (buildMember cfg opts (s, ms) ut) = ms
   \<or> (\<exists>m. snd (buildMember cfg opts (s, ms) ut) = ms @ [m] \<and> m_id m = fst ut
          \<and> hasMovement (fst (buildMember cfg opts (s, ms) ut)) (fst ut))"
  by (auto simp add: buildMember_def Let_def hasMovement_def split: option.splits)

lemma buildInv_step: "buildInv cfg s acc \<Longrightarrow> buildInv cfg s (buildMember cfg opts acc ut)"
proof -
  assume inv: "buildInv cfg s acc"
  obtain s' ms where acc: "acc = (s', ms)" by (cases acc)
  from buildMember_members [of cfg opts s' ms ut]
  have mem: "\<forall>m \<in> set (snd (buildMember cfg opts (s', ms) ut)).
               hasMovement (fst (buildMember cfg opts (s', ms) ut)) (m_id m)"
    using inv by (auto simp add: acc buildInv_def buildMember_hasMovement_keep)
  from inv have "movementKept cfg s (fst (buildMember cfg opts (s', ms) ut))"
    by (auto simp add: acc buildInv_def intro: movementKept_trans buildMember_movementKept)
  with inv mem show ?thesis
    by (simp add: acc buildInv_def buildMember_frame)
qed

lemma buildMembers_inv: "buildInv cfg s (buildMembers cfg opts units targets s)"
  unfolding buildMembers_def
proof (rule foldl_invariant [where I = "buildInv cfg s"])
  show "buildInv cfg s (s, [])" by (simp add: buildInv_def movementKept_refl)
  show "\<And>a x. buildInv cfg s a \<Longrightarrow> buildInv cfg s (buildMember cfg opts a x)"
    by (rule buildInv_step)
qed

lemma any_target_invalid_iff:
  "any_target_invalid pf pfo ms \<longleftrightarrow> (\<exists>m \<in> set ms. targetInvalid pf pfo m)"
  by (induction ms) simp_all

subsection \<open>The abort\<close>

text \<open>
  Claim C5, as the code has it. Let the pathfinder exist and let the member-building loop
  find at least two members (units that exist and have a transform). If the destination
  cell of a member that is not engaged has a negative coordinate or is not walkable, then
  \<^verbatim>\<open>moveGroup\<close> returns right after that loop: the ledger, the pathfinder (so the submitted
  requests) and the request counter are as before, and every movement component is as
  before, but for a default-constructed one attached to a unit that had none.
\<close>

theorem group_abort_no_mutation:
  assumes build: "buildMembers cfg opts units targets s = (s0, members)"
    and two: "1 < length members"
    and pf: "s_pathfinder s = Some pf"
    and m: "m \<in> set members" "\<not> m_isEngaged m" "targetInvalid pf (s_pathfinder s) m"
  shows "moveGroup cfg opts units targets s = s0
       \<and> s_pendingRequests s0 = s_pendingRequests s \<and> s_entityToRequest s0 = s_entityToRequest s
       \<and> s_pathfinder s0 = s_pathfinder s \<and> s_nextRequestId s0 = s_nextRequestId s
       \<and> movementKept cfg s s0"
proof -
  from buildMembers_inv [of cfg s opts units targets] build
  have inv: "s_pathfinder s0 = s_pathfinder s" "s_nextRequestId s0 = s_nextRequestId s"
    "s_entityToRequest s0 = s_entityToRequest s" "s_pendingRequests s0 = s_pendingRequests s"
    "movementKept cfg s s0"
    by (simp_all add: buildInv_def)
  from two obtain a b rest where members: "members = a # b # rest"
    by (cases members; cases "tl members") auto
  from m have inv_m: "any_target_invalid pf (Some pf) (filter (\<lambda>m. \<not> m_isEngaged m) members)"
    by (auto simp add: any_target_invalid_iff pf)
  have "moveGroup cfg opts units targets s = s0"
    using inv_m unfolding moveGroup_def build members [symmetric]
    by (simp add: members inv(1) pf Let_def)
  with inv show ?thesis by simp
qed

lemma twoUnits_pf: "s_pathfinder twoUnits = Some examplePathfinder"
  by (simp add: twoUnits_def)

theorem group_abort_no_mutation_witness:
  "targetInvalid examplePathfinder (s_pathfinder twoUnits)
        (exampleMember 8 (QVector3D 0 0 1) (QVector3D (- 5) 0 1) 0)
   \<and> moveGroup exampleConfig groupOptions [7, 8] [QVector3D 30 0 0, QVector3D (- 5) 0 1] twoUnits = twoUnits"
proof -
  have b: "buildMembers exampleConfig groupOptions [7, 8] [QVector3D 30 0 0, QVector3D (- 5) 0 1] twoUnits
     = (twoUnits, [exampleMember 7 (QVector3D 0 0 0) (QVector3D 30 0 0) 0,
                   exampleMember 8 (QVector3D 0 0 1) (QVector3D (- 5) 0 1) 0])"
    by (simp add: buildMembers_def buildMember_def exitHoldMode_def twoUnits_def groupOptions_def
        exampleMember_def plainUnit_def QVector3D_def Let_def)
  have two: "1 < length [exampleMember 7 (QVector3D 0 0 0) (QVector3D 30 0 0) 0,
                   exampleMember 8 (QVector3D 0 0 1) (QVector3D (- 5) 0 1) 0]" by simp
  have m: "exampleMember 8 (QVector3D 0 0 1) (QVector3D (- 5) 0 1) 0
             \<in> set [exampleMember 7 (QVector3D 0 0 0) (QVector3D 30 0 0) 0,
                   exampleMember 8 (QVector3D 0 0 1) (QVector3D (- 5) 0 1) 0]" by simp
  have ne: "\<not> m_isEngaged (exampleMember 8 (QVector3D 0 0 1) (QVector3D (- 5) 0 1) 0)"
    by (simp add: exampleMember_def)
  have inv: "targetInvalid examplePathfinder (s_pathfinder twoUnits)
        (exampleMember 8 (QVector3D 0 0 1) (QVector3D (- 5) 0 1) 0)"
    by (simp add: targetInvalid_def worldToGrid_def twoUnits_def exampleMember_def
          examplePathfinder_def QVector3D_def cround_def)
  from group_abort_no_mutation [OF b two twoUnits_pf m ne inv] inv show ?thesis by simp
qed

text \<open>
  The claim as stated fails when only one of the commanded units exists. Units 7 and 9 are
  commanded as a group, entity 9 does not exist, and the destination cell (-5, 0) of unit 7
  is off the grid. The one member is handed to the single-unit resolver before any
  destination is validated: unit 7 is marked pending, request 3 is registered and submitted.
\<close>

theorem single_valid_member_not_validated:
  "buildMembers exampleConfig groupOptions [7, 9] [QVector3D (- 5) 0 0, QVector3D 3 0 3] freeUnit
     = (freeUnit, [exampleMember 7 (QVector3D 0 0 0) (QVector3D (- 5) 0 0) 0])
   \<and> m_isEngaged (exampleMember 7 (QVector3D 0 0 0) (QVector3D (- 5) 0 0) 0) = False
   \<and> targetInvalid examplePathfinder (s_pathfinder freeUnit)
        (exampleMember 7 (QVector3D 0 0 0) (QVector3D (- 5) 0 0) 0)
   \<and> world freeUnit 7 = Some (plainUnit 0 0 idleMovement)
   \<and> world (moveUnits exampleConfig groupOptions [7, 9] [QVector3D (- 5) 0 0, QVector3D 3 0 3] freeUnit) 7
       = Some (plainUnit 0 0 (idleMovement\<lparr>goalX := - 5, pathPending := True, pendingRequestId := 3,
                                  timeSinceLastPathRequest := 0, lastGoalX := - 5\<rparr>))
   \<and> s_pendingRequests
        (moveUnits exampleConfig groupOptions [7, 9] [QVector3D (- 5) 0 0, QVector3D 3 0 3] freeUnit) 3
       = Some \<lparr>entity_id = 7, target = QVector3D (- 5) 0 0, options = exampleOptions,
               groupMembers = [], groupTargets = []\<rparr>
   \<and> s_pathfinder
        (moveUnits exampleConfig groupOptions [7, 9] [QVector3D (- 5) 0 0, QVector3D 3 0 3] freeUnit)
       = Some (examplePathfinder\<lparr>submitted := [(3, \<lparr>pt_x = 0, pt_y = 0\<rparr>, \<lparr>pt_x = - 5, pt_y = 0\<rparr>)]\<rparr>)"
proof -
  have b: "buildMembers exampleConfig groupOptions [7, 9] [QVector3D (- 5) 0 0, QVector3D 3 0 3] freeUnit
     = (freeUnit, [exampleMember 7 (QVector3D 0 0 0) (QVector3D (- 5) 0 0) 0])"
    by (simp add: buildMembers_def buildMember_def exitHoldMode_def freeUnit_def groupOptions_def
        exampleMember_def plainUnit_def QVector3D_def Let_def)
  have g: "moveUnits exampleConfig groupOptions [7, 9] [QVector3D (- 5) 0 0, QVector3D 3 0 3] freeUnit
     = moveUnit exampleConfig exampleOptions freeUnit (7, QVector3D (- 5) 0 0)"
    by (simp add: moveUnits_def moveGroup_def b moveUnitsLoop_def)
       (simp add: groupOptions_def exampleOptions_def exampleMember_def)
  show ?thesis
    unfolding g
    by (simp add: b)
       (simp add: freeUnit_def example_defs moveUnit_eval exampleMember_def targetInvalid_def cround_def)
qed

subsection \<open>Formation pathing\<close>

lemma moveGroup_formation:
  assumes build: "buildMembers cfg opts units targets s = (s0, members)"
    and moving: "moving = withDistances (filter (\<lambda>m. \<not> m_isEngaged m) members)"
    and pf0: "s_pathfinder s0 = Some pf0"
    and valid: "\<not> any_target_invalid pf0 (Some pf0) (filter (\<lambda>m. \<not> m_isEngaged m) members)"
    and far: "\<not> foldl max 0 (map m_distanceToTarget moving) \<le> near_threshold_of moving"
    and regroup: "regroup = filter (\<lambda>m. \<not> advances moving m) moving"
    and two: "1 < length regroup"
    and s1: "s1 = moveUnitsLoop cfg (opts\<lparr>groupMove := False\<rparr>)
                    (map m_id (filter (advances moving) moving))
                    (map m_target (filter (advances moving) moving)) s0"
  shows "moveGroup cfg opts units targets s = formationMove cfg opts regroup s1"
proof -
  let ?raw = "filter (\<lambda>m. \<not> m_isEngaged m) members"
  have "length regroup \<le> length ?raw"
    unfolding regroup moving withDistances_def
    by (rule order_trans [OF length_filter_le]) simp
  with two have raw2: "1 < length ?raw" by simp
  then have raw_ne: "?raw \<noteq> []" by auto
  have "1 < length members" by (rule less_le_trans [OF raw2 length_filter_le])
  then obtain m m' rest where members: "members = m # m' # rest"
    by (cases members; cases "tl members") auto
  have ga: "groupAdvance cfg opts ?raw s0 = formationMove cfg opts regroup s1"
    using far two
    unfolding groupAdvance_def Let_def moving [symmetric] regroup [symmetric] s1
    by (auto split: list.splits)
  have "moveGroup cfg opts units targets s = groupAdvance cfg opts ?raw s0"
    using raw_ne valid
    unfolding moveGroup_def build members [symmetric]
    by (simp add: members pf0 Let_def)
  with ga show ?thesis by simp
qed

lemma electLeader_bound:
  "fst acc < i \<Longrightarrow> fst (electLeader average ms i acc) < i + length ms"
proof (induction ms arbitrary: i acc)
  case Nil
  then show ?case by simp
next
  case (Cons m ms)
  let ?acc = "if (case snd acc of None \<Rightarrow> True
                  | Some best_dist_sq \<Rightarrow> lengthSquared (vsub (m_target m) average) < best_dist_sq)
              then (i, Some (lengthSquared (vsub (m_target m) average))) else acc"
  from Cons.prems have "fst ?acc < Suc i" by simp
  from Cons.IH [OF this] show ?case by (simp add: Let_def)
qed

lemma leader_index_bound: "members \<noteq> [] \<Longrightarrow> leader_index members < length members"
proof (cases members)
  case Nil
  assume "members \<noteq> []"
  with Nil show ?thesis by simp
next
  case (Cons m ms)
  have "fst (electLeader (centroidOf (map m_target members)) ms (Suc 0)
          (0, Some (lengthSquared (vsub (m_target m) (centroidOf (map m_target members))))))
        < Suc 0 + length ms"
    by (rule electLeader_bound) simp
  then show ?thesis by (simp add: leader_index_def Cons Let_def)
qed

text \<open>The elected leader is a member whose destination is nearest to the average destination.\<close>

lemma electLeader_closest:
  assumes "all = pre @ ms" and "i = length pre"
    and "case snd acc of None \<Rightarrow> pre = []
         | Some b \<Rightarrow> fst acc < length pre
             \<and> lengthSquared (vsub (m_target (all ! fst acc)) average) = b
             \<and> (\<forall>m \<in> set pre. b \<le> lengthSquared (vsub (m_target m) average))"
    and "all \<noteq> []"
  shows "fst (electLeader average ms i acc) < length all
       \<and> (\<forall>m \<in> set all. lengthSquared (vsub (m_target (all ! fst (electLeader average ms i acc))) average)
                            \<le> lengthSquared (vsub (m_target m) average))"
  using assms
proof (induction ms arbitrary: pre i acc)
  case Nil
  then show ?case by (cases "snd acc") auto
next
  case (Cons m ms)
  let ?d = "lengthSquared (vsub (m_target m) average)"
  let ?acc = "if (case snd acc of None \<Rightarrow> True | Some best_dist_sq \<Rightarrow> ?d < best_dist_sq)
              then (i, Some ?d) else acc"
  have all: "all = (pre @ [m]) @ ms" using Cons.prems(1) by simp
  have i: "Suc i = length (pre @ [m])" using Cons.prems(2) by simp
  have nth: "all ! i = m" using Cons.prems(1,2) by simp
  have inv: "case snd ?acc of None \<Rightarrow> pre @ [m] = []
         | Some b \<Rightarrow> fst ?acc < length (pre @ [m])
             \<and> lengthSquared (vsub (m_target (all ! fst ?acc)) average) = b
             \<and> (\<forall>m \<in> set (pre @ [m]). b \<le> lengthSquared (vsub (m_target m) average))"
    using Cons.prems(2,3) nth
    by (cases "snd acc") (auto simp add: less_Suc_eq split: if_splits)
  from Cons.IH [OF all i inv Cons.prems(4)] show ?case by (simp add: Let_def)
qed

lemma leader_is_closest:
  assumes "members \<noteq> []" and "m \<in> set members"
  shows "lengthSquared (vsub (m_target (members ! leader_index members))
                          (centroidOf (map m_target members)))
       \<le> lengthSquared (vsub (m_target m) (centroidOf (map m_target members)))"
  using electLeader_closest [of members "[]" members 0 "(0, None)" "centroidOf (map m_target members)"]
    assms
  by (simp add: leader_index_def)

lemma updMovement_frame [simp]:
  "s_pathfinder (updMovement uid f s) = s_pathfinder s"
  "s_nextRequestId (updMovement uid f s) = s_nextRequestId s"
  "s_entityToRequest (updMovement uid f s) = s_entityToRequest s"
  "s_pendingRequests (updMovement uid f s) = s_pendingRequests s"
  by (simp_all add: updMovement_def split: option.splits)

lemma updMovement_hasMovement [simp]:
  "hasMovement (updMovement uid f s) uid' = hasMovement s uid'"
  by (simp add: updMovement_def hasMovement_def split: option.splits)

lemma clearPendingRequest_hasMovement [simp]:
  "hasMovement (clearPendingRequest uid s) uid' = hasMovement s uid'"
  by (simp add: hasMovement_def)

lemma resetMember_frame [simp]:
  "s_pathfinder (resetMember s m) = s_pathfinder s"
  "s_nextRequestId (resetMember s m) = s_nextRequestId s"
  "hasMovement (resetMember s m) uid = hasMovement s uid"
  by (simp_all add: resetMember_def)

lemma foldl_resetMember_frame [simp]:
  "s_pathfinder (foldl resetMember s ms) = s_pathfinder s"
  "s_nextRequestId (foldl resetMember s ms) = s_nextRequestId s"
  "hasMovement (foldl resetMember s ms) uid = hasMovement s uid"
  by (induction ms arbitrary: s) simp_all

lemma markPending_frame [simp]:
  "s_pathfinder (markPending rid s m) = s_pathfinder s"
  "s_nextRequestId (markPending rid s m) = s_nextRequestId s"
  "s_entityToRequest (markPending rid s m) = s_entityToRequest s"
  "s_pendingRequests (markPending rid s m) = s_pendingRequests s"
  "hasMovement (markPending rid s m) uid = hasMovement s uid"
  by (simp_all add: markPending_def)

lemma foldl_markPending_frame [simp]:
  "s_pathfinder (foldl (markPending rid) s ms) = s_pathfinder s"
  "s_nextRequestId (foldl (markPending rid) s ms) = s_nextRequestId s"
  "s_entityToRequest (foldl (markPending rid) s ms) = s_entityToRequest s"
  "s_pendingRequests (foldl (markPending rid) s ms) = s_pendingRequests s"
  "hasMovement (foldl (markPending rid) s ms) uid = hasMovement s uid"
  by (induction ms arbitrary: s) simp_all

lemma markPending_keeps: "pendingOn rid s uid \<Longrightarrow> pendingOn rid (markPending rid s m) uid"
  by (auto simp add: markPending_def updMovement_def pendingOn_def split: option.splits)

lemma markPending_sets: "hasMovement s (m_id m) \<Longrightarrow> pendingOn rid (markPending rid s m) (m_id m)"
  by (auto simp add: markPending_def updMovement_def pendingOn_def hasMovement_def split: option.splits)

lemma foldl_markPending_keeps:
  "pendingOn rid s uid \<Longrightarrow> pendingOn rid (foldl (markPending rid) s ms) uid"
  by (induction ms arbitrary: s) (simp_all add: markPending_keeps)

lemma foldl_markPending_sets:
  "m \<in> set ms \<Longrightarrow> hasMovement s (m_id m) \<Longrightarrow> pendingOn rid (foldl (markPending rid) s ms) (m_id m)"
proof (induction ms arbitrary: s)
  case Nil
  then show ?case by simp
next
  case (Cons a ms)
  show ?case
  proof (cases "m = a")
    case True
    with Cons.prems show ?thesis
      by (simp add: foldl_markPending_keeps markPending_sets)
  next
    case False
    with Cons.prems have "m \<in> set ms" by simp
    from Cons.IH [OF this, of "markPending rid s a"] Cons.prems(2) show ?thesis by simp
  qed
qed

lemma foldl_entries_keep:
  "e2r uid = Some rid \<Longrightarrow> foldl (\<lambda>e2r m. e2r(m_id m \<mapsto> rid)) e2r ms uid = Some rid"
  by (induction ms arbitrary: e2r) simp_all

lemma foldl_entries_set:
  "m \<in> set ms \<Longrightarrow> foldl (\<lambda>e2r m. e2r(m_id m \<mapsto> rid)) e2r ms (m_id m) = Some rid"
proof (induction ms arbitrary: e2r)
  case Nil
  then show ?case by simp
next
  case (Cons a ms)
  show ?case
  proof (cases "m = a")
    case True
    show ?thesis unfolding True foldl_Cons
      by (rule foldl_entries_keep) simp
  next
    case False
    with Cons.prems have "m \<in> set ms" by simp
    from Cons.IH [OF this] show ?thesis unfolding foldl_Cons .
  qed
qed

lemma formationMove_request:
  assumes pf1: "s_pathfinder s1 = Some pf1"
    and leader: "leader = members ! leader_index members"
    and startp: "startp = worldToGrid (Some pf1) (vec_x (m_position leader)) (vec_z (m_position leader))"
    and endp: "endp = worldToGrid (Some pf1) (vec_x (m_target leader)) (vec_z (m_target leader))"
    and ne: "startp \<noteq> endp"
    and nd: "\<not> (manhattan startp endp \<le> DIRECT_PATH_THRESHOLD cfg \<and> allowDirectFallback opts)"
  shows "formationMove cfg opts members s1 =
           (foldl (markPending (s_nextRequestId s1)) (foldl resetMember s1 members) members)
             \<lparr>s_nextRequestId := s_nextRequestId s1 + 1,
              s_pendingRequests := (s_pendingRequests (foldl resetMember s1 members))
                (s_nextRequestId s1 \<mapsto> \<lparr>entity_id = m_id leader, target = m_target leader,
                   options = opts, groupMembers = map m_id members,
                   groupTargets = map m_target members\<rparr>),
              s_entityToRequest := foldl (\<lambda>e2r m. e2r(m_id m \<mapsto> s_nextRequestId s1))
                  (s_entityToRequest (foldl resetMember s1 members)) members,
              s_pathfinder := Some (pf1\<lparr>submitted := submitted pf1 @ [(s_nextRequestId s1, startp, endp)]\<rparr>)\<rparr>"
  using ne nd
  unfolding formationMove_def Let_def leader [symmetric]
  by (auto simp add: pf1 startp [symmetric] endp [symmetric] fetch_add_def submitPathRequest_def)

text \<open>
  Claim C7, as the code has it. Let a group move reach formation pathing: the
  member-building loop yields \<open>members\<close>, the destinations of the moving members are valid,
  the near-destination shortcut is not taken, the regroup set \<open>regroup\<close> has at least two
  members, and, in the state \<open>s1\<close> reached once the members that advance on their own have
  been handed to the single-unit resolver, the leader's start and end cells differ and the
  direct path is not taken. Then exactly one request id \<open>rid\<close> is allocated after \<open>s1\<close>,
  every regroup member is marked pending with \<open>rid\<close>, one ledger entry is registered under
  \<open>rid\<close> on top of the ledger left by the reset of the members, its owner is the elected
  leader, its \<open>groupMembers\<close> and \<open>groupTargets\<close> list every regroup member with its own
  destination, the leader included, every regroup member points at \<open>rid\<close>, and one search
  request is submitted, for the leader's start and end cells.
\<close>

theorem formation_pathing_one_request:
  assumes build: "buildMembers cfg opts units targets s = (s0, members)"
    and moving: "moving = withDistances (filter (\<lambda>m. \<not> m_isEngaged m) members)"
    and pf0: "s_pathfinder s0 = Some pf0"
    and valid: "\<not> any_target_invalid pf0 (Some pf0) (filter (\<lambda>m. \<not> m_isEngaged m) members)"
    and far: "\<not> foldl max 0 (map m_distanceToTarget moving) \<le> near_threshold_of moving"
    and regroup: "regroup = filter (\<lambda>m. \<not> advances moving m) moving"
    and two: "1 < length regroup"
    and s1: "s1 = moveUnitsLoop cfg (opts\<lparr>groupMove := False\<rparr>)
                    (map m_id (filter (advances moving) moving))
                    (map m_target (filter (advances moving) moving)) s0"
    and pf1: "s_pathfinder s1 = Some pf1"
    and leader: "leader = regroup ! leader_index regroup"
    and startp: "startp = worldToGrid (Some pf1) (vec_x (m_position leader)) (vec_z (m_position leader))"
    and endp: "endp = worldToGrid (Some pf1) (vec_x (m_target leader)) (vec_z (m_target leader))"
    and ne: "startp \<noteq> endp"
    and nd: "\<not> (manhattan startp endp \<le> DIRECT_PATH_THRESHOLD cfg \<and> allowDirectFallback opts)"
    and s': "s' = moveGroup cfg opts units targets s"
    and rid: "rid = s_nextRequestId s1"
  shows "s_nextRequestId s' = rid + 1
       \<and> (\<forall>m \<in> set regroup. pendingOn rid s' (m_id m))
       \<and> s_pendingRequests s' = (s_pendingRequests (foldl resetMember s1 regroup))
            (rid \<mapsto> \<lparr>entity_id = m_id leader, target = m_target leader, options = opts,
                     groupMembers = map m_id regroup, groupTargets = map m_target regroup\<rparr>)
       \<and> leader \<in> set regroup
       \<and> (\<forall>m \<in> set regroup. s_entityToRequest s' (m_id m) = Some rid)
       \<and> s_pathfinder s' = Some (pf1\<lparr>submitted := submitted pf1 @ [(rid, startp, endp)]\<rparr>)"
proof -
  have eq: "s' = formationMove cfg opts regroup s1"
    unfolding s' by (rule moveGroup_formation [OF build moving pf0 valid far regroup two s1])
  note fm = formationMove_request [OF pf1 leader startp endp ne nd]
  from two have "regroup \<noteq> []" by auto
  then have lead: "leader \<in> set regroup"
    unfolding leader by (intro nth_mem leader_index_bound)
  have hm: "hasMovement s1 (m_id m)" if "m \<in> set regroup" for m
  proof -
    from that have "m \<in> set moving" by (simp add: regroup)
    then obtain m0 where "m0 \<in> set members" "m_id m = m_id m0"
      by (auto simp add: moving withDistances_def)
    moreover from buildMembers_inv [of cfg s opts units targets] build
    have "\<forall>m \<in> set members. hasMovement s0 (m_id m)" by (simp add: buildInv_def)
    ultimately have "hasMovement s0 (m_id m)" by simp
    then show ?thesis unfolding s1 by (rule moveUnitsLoop_hasMovement)
  qed
  have pend: "pendingOn rid s' (m_id m)" if "m \<in> set regroup" for m
  proof -
    have "pendingOn rid (foldl (markPending rid) (foldl resetMember s1 regroup) regroup) (m_id m)"
      by (rule foldl_markPending_sets [OF that]) (simp add: hm [OF that])
    then show ?thesis by (simp add: eq fm rid pendingOn_def)
  qed
  have ent: "s_entityToRequest s' (m_id m) = Some rid" if "m \<in> set regroup" for m
    using foldl_entries_set [OF that, of rid "s_entityToRequest (foldl resetMember s1 regroup)"]
    by (simp add: eq fm rid)
  show ?thesis
    using lead pend ent by (simp add: eq fm rid)
qed

subsection \<open>The group move of two units, step by step\<close>

lemma twoUnits_build:
  "buildMembers exampleConfig groupOptions [7, 8] [QVector3D 30 0 0, QVector3D 30 0 1] twoUnits
     = (twoUnits, rawPair)"
  by (simp add: buildMembers_def buildMember_def exitHoldMode_def twoUnits_def groupOptions_def
        exampleMember_def plainUnit_def QVector3D_def Let_def)

lemma twoUnits_distances: "withDistances rawPair = movingPair"
  by (simp add: withDistances_def exampleMember_def vlength_def lengthSquared_def vsub_def
        QVector3D_def sqrt_900)

lemma twoUnits_near: "near_threshold_of movingPair = 12"
  by (simp add: near_threshold_of_def exampleMember_def clamp_def)

lemma twoUnits_max: "foldl max 0 (map m_distanceToTarget movingPair) = 30"
  by (simp add: exampleMember_def)

lemma twoUnits_centroid: "position_centroid_of movingPair = QVector3D 0 0 (1 / 2)"
  by (simp add: position_centroid_of_def centroidOf_def exampleMember_def vadd_def vdiv_def
        QVector3D_def)

lemma twoUnits_scatter: "scatter_threshold_of movingPair = 5 / 2"
  unfolding scatter_threshold_of_def twoUnits_centroid
  by (simp add: exampleMember_def vlength_def lengthSquared_def vsub_def QVector3D_def sqrt_quarter)

lemma twoUnits_speed: "avg_speed_of movingPair = 1"
  by (simp add: avg_speed_of_def exampleMember_def)

lemma twoUnits_advances:
  "advances movingPair (exampleMember 7 (QVector3D 0 0 0) (QVector3D 30 0 0) 30) = False"
  "advances movingPair (exampleMember 8 (QVector3D 0 0 1) (QVector3D 30 0 1) 30) = False"
  unfolding advances_def twoUnits_near twoUnits_scatter twoUnits_speed twoUnits_centroid
  by (simp_all add: should_advance_def exampleMember_def
        vlength_def lengthSquared_def vsub_def QVector3D_def sqrt_quarter Let_def)

lemma twoUnits_leader: "leader_index movingPair = 0"
  by (simp add: leader_index_def centroidOf_def exampleMember_def
        lengthSquared_def vsub_def vadd_def vdiv_def QVector3D_def Let_def)

lemma twoUnits_reset:
  "foldl resetMember twoUnits movingPair =
     twoUnits\<lparr>world := [7 \<mapsto> plainUnit 0 0 (idleMovement\<lparr>goalX := 30\<rparr>),
                        8 \<mapsto> plainUnit 0 1 (idleMovement\<lparr>goalX := 30, goalY := 1, target_y := 1\<rparr>)]\<rparr>"
  by (simp add: resetMember_def updMovement_def clearPendingRequest_def twoUnits_def exampleMember_def
        plainUnit_def idleMovement_def QVector3D_def fun_upd_twist)

lemma twoUnits_filter: "filter (\<lambda>m. \<not> m_isEngaged m) rawPair = rawPair"
  by (simp add: exampleMember_def)

lemma twoUnits_moving: "movingPair = withDistances (filter (\<lambda>m. \<not> m_isEngaged m) rawPair)"
  by (simp only: twoUnits_filter twoUnits_distances)

lemma twoUnits_valid:
  "\<not> any_target_invalid examplePathfinder (Some examplePathfinder) (filter (\<lambda>m. \<not> m_isEngaged m) rawPair)"
  unfolding twoUnits_filter
  by (simp add: targetInvalid_def worldToGrid_def exampleMember_def examplePathfinder_def QVector3D_def)

lemma twoUnits_far: "\<not> foldl max 0 (map m_distanceToTarget movingPair) \<le> near_threshold_of movingPair"
  unfolding twoUnits_max twoUnits_near by simp

lemma twoUnits_regroup: "movingPair = filter (\<lambda>m. \<not> advances movingPair m) movingPair"
  by (simp add: twoUnits_advances)

lemma twoUnits_direct: "filter (advances movingPair) movingPair = []"
  by (simp add: twoUnits_advances)

lemma twoUnits_s1:
  "twoUnits = moveUnitsLoop exampleConfig (groupOptions\<lparr>groupMove := False\<rparr>)
                    (map m_id (filter (advances movingPair) movingPair))
                    (map m_target (filter (advances movingPair) movingPair)) twoUnits"
  by (simp only: twoUnits_direct list.map moveUnitsLoop_Nil)

lemma twoUnits_leader_member:
  "movingPair ! leader_index movingPair = exampleMember 7 (QVector3D 0 0 0) (QVector3D 30 0 0) 30"
  by (simp only: twoUnits_leader nth_Cons_0)

lemma twoUnits_cells:
  "worldToGrid (Some examplePathfinder) (vec_x (m_position (movingPair ! leader_index movingPair)))
       (vec_z (m_position (movingPair ! leader_index movingPair))) = \<lparr>pt_x = 0, pt_y = 0\<rparr>"
  "worldToGrid (Some examplePathfinder) (vec_x (m_target (movingPair ! leader_index movingPair)))
       (vec_z (m_target (movingPair ! leader_index movingPair))) = \<lparr>pt_x = 30, pt_y = 0\<rparr>"
  unfolding twoUnits_leader_member
  by (simp_all add: worldToGrid_def exampleMember_def examplePathfinder_def QVector3D_def)

lemma twoUnits_no_shortcut:
  "worldToGrid (Some examplePathfinder) (vec_x (m_position (movingPair ! leader_index movingPair)))
       (vec_z (m_position (movingPair ! leader_index movingPair)))
   \<noteq> worldToGrid (Some examplePathfinder) (vec_x (m_target (movingPair ! leader_index movingPair)))
       (vec_z (m_target (movingPair ! leader_index movingPair)))"
  "\<not> (manhattan (worldToGrid (Some examplePathfinder) (vec_x (m_position (movingPair ! leader_index movingPair)))
       (vec_z (m_position (movingPair ! leader_index movingPair))))
       (worldToGrid (Some examplePathfinder) (vec_x (m_target (movingPair ! leader_index movingPair)))
       (vec_z (m_target (movingPair ! leader_index movingPair)))) \<le> DIRECT_PATH_THRESHOLD exampleConfig
       \<and> allowDirectFallback groupOptions)"
  unfolding twoUnits_cells
  by (simp_all add: manhattan_def exampleConfig_def)

lemma twoUnits_moveGroup:
  "moveGroup exampleConfig groupOptions [7, 8] [QVector3D 30 0 0, QVector3D 30 0 1] twoUnits = formedGroup"
proof -
  have "moveGroup exampleConfig groupOptions [7, 8] [QVector3D 30 0 0, QVector3D 30 0 1] twoUnits
          = formationMove exampleConfig groupOptions movingPair twoUnits"
    by (rule moveGroup_formation [OF twoUnits_build twoUnits_moving twoUnits_pf twoUnits_valid
          twoUnits_far twoUnits_regroup _ twoUnits_s1]) simp
  also have "\<dots> = formedGroup"
    unfolding formationMove_request [OF twoUnits_pf refl refl refl twoUnits_no_shortcut]
      twoUnits_cells twoUnits_leader_member twoUnits_reset
    by (simp add: formedGroup_def twoUnits_def markPending_def updMovement_def exampleMember_def
          plainUnit_def idleMovement_def QVector3D_def examplePathfinder_def worldToGrid_def
          fun_upd_twist)
  finally show ?thesis .
qed

lemma twoUnits_moveUnits:
  "moveUnits exampleConfig groupOptions [7, 8] [QVector3D 30 0 0, QVector3D 30 0 1] twoUnits = formedGroup"
  by (simp add: moveUnits_def twoUnits_moveGroup groupOptions_def [symmetric])
     (simp add: groupOptions_def)

theorem formation_pathing_one_request_witness:
  "s_nextRequestId (moveGroup exampleConfig groupOptions [7, 8] [QVector3D 30 0 0, QVector3D 30 0 1] twoUnits) = 4
   \<and> pendingOn 3 (moveGroup exampleConfig groupOptions [7, 8] [QVector3D 30 0 0, QVector3D 30 0 1] twoUnits) 7
   \<and> pendingOn 3 (moveGroup exampleConfig groupOptions [7, 8] [QVector3D 30 0 0, QVector3D 30 0 1] twoUnits) 8
   \<and> s_entityToRequest (moveGroup exampleConfig groupOptions [7, 8] [QVector3D 30 0 0, QVector3D 30 0 1] twoUnits) 7 = Some 3
   \<and> s_entityToRequest (moveGroup exampleConfig groupOptions [7, 8] [QVector3D 30 0 0, QVector3D 30 0 1] twoUnits) 8 = Some 3
   \<and> s_pathfinder (moveGroup exampleConfig groupOptions [7, 8] [QVector3D 30 0 0, QVector3D 30 0 1] twoUnits)
       = Some (examplePathfinder\<lparr>submitted := [(3, \<lparr>pt_x = 0, pt_y = 0\<rparr>, \<lparr>pt_x = 30, pt_y = 0\<rparr>)]\<rparr>)"
proof -
  have two: "1 < length movingPair" by simp
  have rid: "(3 :: RequestId) = s_nextRequestId twoUnits" by (simp add: twoUnits_def)
  note w = formation_pathing_one_request [OF twoUnits_build twoUnits_moving twoUnits_pf
      twoUnits_valid twoUnits_far twoUnits_regroup two twoUnits_s1 twoUnits_pf refl refl refl
      twoUnits_no_shortcut refl rid]
  from w show ?thesis
    unfolding twoUnits_cells
    by (simp add: exampleMember_def examplePathfinder_def)
qed

text \<open>
  The claim as stated (the group list holds every other member, not the leader) fails: in
  the group move of units 7 and 8 the leader is unit 7, and the entry registered under
  request 3 lists units 7 and 8 as group members.
\<close>

theorem leader_listed_in_group_members:
  "s_pendingRequests
      (moveUnits exampleConfig groupOptions [7, 8] [QVector3D 30 0 0, QVector3D 30 0 1] twoUnits) 3
     = Some \<lparr>entity_id = 7, target = QVector3D 30 0 0, options = groupOptions,
             groupMembers = [7, 8], groupTargets = [QVector3D 30 0 0, QVector3D 30 0 1]\<rparr>"
  by (simp add: twoUnits_moveUnits formedGroup_def)

section \<open>Ledger consistency\<close>

text \<open>
  The step of \<^verbatim>\<open>moveUnits\<close> that supersedes a request (lines 280-283) erases the request
  and the entry of the commanded unit. Another entity that points at the same request keeps
  its entry, which then names a request that is gone.
\<close>

lemma supersedeExisting_orphans_member:
  assumes "s_entityToRequest s uid = Some rid" and "s_pendingRequests s rid = Some req"
    and "\<not> (vec_x (target req) - tx) * (vec_x (target req) - tx)
           + (vec_z (target req) - tz) * (vec_z (target req) - tz) \<le> same_target_threshold_sq"
    and "m \<noteq> uid" and "s_entityToRequest s m = Some rid"
  shows "s_entityToRequest (snd (supersedeExisting opts uid tx tz s)) m = Some rid
       \<and> s_pendingRequests (snd (supersedeExisting opts uid tx tz s)) rid = None"
  using assms by (simp add: supersedeExisting_def Let_def)

text \<open>
  Claim C1 does not hold of the code. Units 7 and 8 are moved as a group: request 3 is
  registered with both as group members, both point at it, and the ledger is consistent.
  Then unit 8 alone is sent elsewhere. \<^verbatim>\<open>moveUnits\<close> (lines 268-288) erases request 3 and
  the entry of unit 8 only; unlike \<^verbatim>\<open>clearPendingRequest\<close> it does not visit the group
  members of the erased request. The entry of unit 7 is left pointing at request 3, which
  is no longer in the ledger.
\<close>

theorem supersede_leaves_dangling_entry:
  "ledgerConsistent twoUnits
   \<and> ledgerConsistent (moveUnits exampleConfig groupOptions [7, 8] [QVector3D 30 0 0, QVector3D 30 0 1] twoUnits)
   \<and> s_entityToRequest
        (moveUnits exampleConfig exampleOptions [8] [QVector3D 0 0 30]
           (moveUnits exampleConfig groupOptions [7, 8] [QVector3D 30 0 0, QVector3D 30 0 1] twoUnits)) 7
       = Some 3
   \<and> s_pendingRequests
        (moveUnits exampleConfig exampleOptions [8] [QVector3D 0 0 30]
           (moveUnits exampleConfig groupOptions [7, 8] [QVector3D 30 0 0, QVector3D 30 0 1] twoUnits)) 3
       = None
   \<and> \<not> ledgerConsistent
        (moveUnits exampleConfig exampleOptions [8] [QVector3D 0 0 30]
           (moveUnits exampleConfig groupOptions [7, 8] [QVector3D 30 0 0, QVector3D 30 0 1] twoUnits))"
proof -
  let ?final = "moveUnits exampleConfig exampleOptions [8] [QVector3D 0 0 30] formedGroup"
  have c0: "ledgerConsistent twoUnits"
    by (simp add: ledgerConsistent_def entriesRegistered_def membersPointBack_def twoUnits_def)
  have c1: "ledgerConsistent formedGroup"
    by (auto simp add: ledgerConsistent_def entriesRegistered_def membersPointBack_def formedGroup_def
          split: if_splits)
  have e: "s_entityToRequest ?final 7 = Some 3"
    by (simp add: formedGroup_def example_defs moveUnit_eval)
  have p: "s_pendingRequests ?final 3 = None"
    by (simp add: formedGroup_def example_defs moveUnit_eval)
  from e p have "\<not> entriesRegistered ?final"
    unfolding entriesRegistered_def by blast
  with c0 c1 e p show ?thesis
    by (simp add: twoUnits_moveUnits ledgerConsistent_def)
qed

text \<open>
  The sibling path: \<^verbatim>\<open>clearPendingRequest\<close> on the same state erases the request together
  with the entries of all its group members, and the ledger stays consistent.
\<close>

lemma clearPendingRequest_cascades:
  "s_entityToRequest (clearPendingRequest 8 formedGroup) 7 = None
   \<and> s_pendingRequests (clearPendingRequest 8 formedGroup) 3 = None
   \<and> ledgerConsistent (clearPendingRequest 8 formedGroup)"
  by (simp add: clearPendingRequest_def remove_entry_def formedGroup_def ledgerConsistent_def
        entriesRegistered_def membersPointBack_def)

section \<open>The request ids that the commands allocate\<close>

text \<open>
  Every operation of the service is shown to satisfy \<open>idsAllocated\<close>: what it adds to the
  submitted requests, to the keys of the ledger and to the entity-to-request map are the
  values that its calls of \<^verbatim>\<open>fetch_add\<close> returned, and it leaves the counter where these
  calls left it. The two allocation sites are the single-unit resolver (lines 300-302) and
  the group resolver (lines 663-664).
\<close>

lemma allocations_add:
  "allocations (j + k) c =
     (fst (allocations j c) @ fst (allocations k (snd (allocations j c))),
      snd (allocations k (snd (allocations j c))))"
proof (induction j arbitrary: c)
  case 0
  show ?case by simp
next
  case (Suc j)
  show ?case using Suc [of "c + 1"]
    by (simp add: fetch_add_def split: prod.splits)
qed

lemma length_allocations [simp]: "length (fst (allocations k c)) = k"
  by (simp add: allocations_eq)

lemma ran_upd_subset: "ran (m(a \<mapsto> b)) \<subseteq> insert b (ran m)"
  by (auto simp add: ran_def)

lemma ran_del_subset: "ran (m(a := None)) \<subseteq> ran m"
  by (auto simp add: ran_def split: if_splits)

lemma remove_entry_ran: "ran (remove_entry rid eid e2r) \<subseteq> ran e2r"
  using ran_del_subset [of e2r eid] by (simp add: remove_entry_def)

lemma eraseMembers_ran: "ran (eraseMembers rid ms e2r) \<subseteq> ran e2r"
proof (induction ms arbitrary: e2r)
  case Nil
  show ?case by simp
next
  case (Cons m ms)
  from Cons [of "remove_entry rid m e2r"] remove_entry_ran [of rid m e2r]
  show ?case by auto
qed

lemma foldl_entries_ran:
  "ran (foldl (\<lambda>e2r m. e2r(m_id m \<mapsto> rid)) e2r ms) \<subseteq> insert rid (ran e2r)"
proof (induction ms arbitrary: e2r)
  case Nil
  show ?case by auto
next
  case (Cons m ms)
  from Cons [of "e2r(m_id m \<mapsto> rid)"] ran_upd_subset [of e2r "m_id m" rid]
  show ?case unfolding foldl_Cons by blast
qed

lemma idsAllocated_refl: "idsAllocated s s"
  unfolding idsAllocated_def by (rule exI [of _ 0]) simp

lemma idsAllocated_trans:
  assumes "idsAllocated s s'" and "idsAllocated s' s''"
  shows "idsAllocated s s''"
proof -
  from assms(1) obtain j where j: "s_nextRequestId s' = snd (allocations j (s_nextRequestId s))"
    "submittedIds s' = submittedIds s @ fst (allocations j (s_nextRequestId s))"
    "dom (s_pendingRequests s') \<subseteq> dom (s_pendingRequests s) \<union> set (fst (allocations j (s_nextRequestId s)))"
    "ran (s_entityToRequest s') \<subseteq> ran (s_entityToRequest s) \<union> set (fst (allocations j (s_nextRequestId s)))"
    unfolding idsAllocated_def by blast
  from assms(2) obtain k where k: "s_nextRequestId s'' = snd (allocations k (s_nextRequestId s'))"
    "submittedIds s'' = submittedIds s' @ fst (allocations k (s_nextRequestId s'))"
    "dom (s_pendingRequests s'') \<subseteq> dom (s_pendingRequests s') \<union> set (fst (allocations k (s_nextRequestId s')))"
    "ran (s_entityToRequest s'') \<subseteq> ran (s_entityToRequest s') \<union> set (fst (allocations k (s_nextRequestId s')))"
    unfolding idsAllocated_def by blast
  show ?thesis
    unfolding idsAllocated_def
  proof (intro exI [of _ "j + k"] conjI)
    show "s_nextRequestId s'' = snd (allocations (j + k) (s_nextRequestId s))"
      by (simp add: allocations_add k(1) j(1))
    show "submittedIds s'' = submittedIds s @ fst (allocations (j + k) (s_nextRequestId s))"
      by (simp add: allocations_add k(2) j(1,2))
    show "dom (s_pendingRequests s'') \<subseteq> dom (s_pendingRequests s) \<union> set (fst (allocations (j + k) (s_nextRequestId s)))"
      using k(3) j(3) by (auto simp add: allocations_add j(1))
    show "ran (s_entityToRequest s'') \<subseteq> ran (s_entityToRequest s) \<union> set (fst (allocations (j + k) (s_nextRequestId s)))"
      using k(4) j(4) by (auto simp add: allocations_add j(1))
  qed
qed

lemma idsAllocated_none:
  assumes "s_nextRequestId s' = s_nextRequestId s" and "s_pathfinder s' = s_pathfinder s"
    and "dom (s_pendingRequests s') \<subseteq> dom (s_pendingRequests s)"
    and "ran (s_entityToRequest s') \<subseteq> ran (s_entityToRequest s)"
  shows "idsAllocated s s'"
  unfolding idsAllocated_def using assms
  by (intro exI [of _ 0]) (auto simp add: submittedIds_def)

lemma idsAllocated_one:
  assumes "s_pathfinder s = Some pf"
    and "s_nextRequestId s' = s_nextRequestId s + 1"
    and "s_pathfinder s' = Some (pf\<lparr>submitted := submitted pf @ [(s_nextRequestId s, a, b)]\<rparr>)"
    and "dom (s_pendingRequests s') \<subseteq> insert (s_nextRequestId s) (dom (s_pendingRequests s))"
    and "ran (s_entityToRequest s') \<subseteq> insert (s_nextRequestId s) (ran (s_entityToRequest s))"
  shows "idsAllocated s s'"
  unfolding idsAllocated_def using assms
  by (intro exI [of _ "Suc 0"]) (auto simp add: submittedIds_def fetch_add_def)

lemma foldl_idsAllocated:
  assumes "\<And>a x. idsAllocated a (f a x)"
  shows "idsAllocated s (foldl f s xs)"
proof (induction xs arbitrary: s)
  case Nil
  show ?case by (simp add: idsAllocated_refl)
next
  case (Cons x xs)
  from idsAllocated_trans [OF assms [of s x] Cons [of "f s x"]] show ?case by simp
qed

lemma clearPendingRequest_dom:
  "dom (s_pendingRequests (clearPendingRequest eid s)) \<subseteq> dom (s_pendingRequests s)"
  by (auto simp add: clearPendingRequest_def split: option.splits if_splits)

lemma clearPendingRequest_ran:
  "ran (s_entityToRequest (clearPendingRequest eid s)) \<subseteq> ran (s_entityToRequest s)"
proof -
  have "ran (eraseMembers rid ms ((s_entityToRequest s)(eid := None))) \<subseteq> ran (s_entityToRequest s)"
    for rid ms
    using eraseMembers_ran [of rid ms "(s_entityToRequest s)(eid := None)"]
      ran_del_subset [of "s_entityToRequest s" eid] by blast
  then show ?thesis
    using ran_del_subset [of "s_entityToRequest s" eid]
    by (simp add: clearPendingRequest_def split: option.splits)
qed

lemma clearPendingRequest_ids: "idsAllocated s (clearPendingRequest eid s)"
  by (rule idsAllocated_none) (simp_all add: clearPendingRequest_dom clearPendingRequest_ran)

lemma matchPending_dom:
  "dom (s_pendingRequests (snd (matchPending opts uid tx tz mv s))) = dom (s_pendingRequests s)"
  by (auto simp add: matchPending_def Let_def split: option.splits if_splits)

lemma matchPending_ran:
  "ran (s_entityToRequest (snd (matchPending opts uid tx tz mv s))) \<subseteq> ran (s_entityToRequest s)"
  using ran_del_subset [of "s_entityToRequest s" uid]
  by (simp add: matchPending_def Let_def split: option.splits)

lemma supersedeExisting_ids:
  "s_nextRequestId (snd (supersedeExisting opts uid tx tz s)) = s_nextRequestId s"
  "s_pathfinder (snd (supersedeExisting opts uid tx tz s)) = s_pathfinder s"
  "dom (s_pendingRequests (snd (supersedeExisting opts uid tx tz s))) \<subseteq> dom (s_pendingRequests s)"
  by (auto simp add: supersedeExisting_def Let_def split: option.splits if_splits)

lemma supersedeExisting_ran:
  "ran (s_entityToRequest (snd (supersedeExisting opts uid tx tz s))) \<subseteq> ran (s_entityToRequest s)"
  using ran_del_subset [of "s_entityToRequest s" uid]
  by (simp add: supersedeExisting_def Let_def split: option.splits)

text \<open>The allocation site of the single-unit resolver.\<close>

lemma resolveMove_ids:
  "(s_nextRequestId (snd (resolveMove cfg opts uid tgt tr mv s)) = s_nextRequestId s
      \<and> s_pathfinder (snd (resolveMove cfg opts uid tgt tr mv s)) = s_pathfinder s
      \<and> dom (s_pendingRequests (snd (resolveMove cfg opts uid tgt tr mv s))) \<subseteq> dom (s_pendingRequests s)
      \<and> ran (s_entityToRequest (snd (resolveMove cfg opts uid tgt tr mv s))) \<subseteq> ran (s_entityToRequest s))
   \<or> (\<exists>pf a b. s_pathfinder s = Some pf
        \<and> s_nextRequestId (snd (resolveMove cfg opts uid tgt tr mv s)) = s_nextRequestId s + 1
        \<and> s_pathfinder (snd (resolveMove cfg opts uid tgt tr mv s))
            = Some (pf\<lparr>submitted := submitted pf @ [(s_nextRequestId s, a, b)]\<rparr>)
        \<and> dom (s_pendingRequests (snd (resolveMove cfg opts uid tgt tr mv s)))
            \<subseteq> insert (s_nextRequestId s) (dom (s_pendingRequests s))
        \<and> ran (s_entityToRequest (snd (resolveMove cfg opts uid tgt tr mv s)))
            \<subseteq> insert (s_nextRequestId s) (ran (s_entityToRequest s))
        \<and> s_pendingRequests (snd (resolveMove cfg opts uid tgt tr mv s)) (s_nextRequestId s) \<noteq> None
        \<and> s_entityToRequest (snd (resolveMove cfg opts uid tgt tr mv s)) uid = Some (s_nextRequestId s)
        \<and> pathPending (fst (resolveMove cfg opts uid tgt tr mv s))
        \<and> pendingRequestId (fst (resolveMove cfg opts uid tgt tr mv s)) = s_nextRequestId s)"
proof (cases "s_pathfinder s")
  case None
  then show ?thesis
    by (simp add: resolveMove_def Let_def clearPendingRequest_dom clearPendingRequest_ran)
next
  case (Some pf)
  let ?startp = "worldToGrid (s_pathfinder s) (vec_x (position tr)) (vec_z (position tr))"
  let ?endp = "worldToGrid (s_pathfinder s) (vec_x tgt) (vec_z tgt)"
  show ?thesis
  proof (cases "?startp = ?endp \<or> (manhattan ?startp ?endp \<le> DIRECT_PATH_THRESHOLD cfg \<and> allowDirectFallback opts)")
    case True
    then show ?thesis
      using clearPendingRequest_dom [of uid s] clearPendingRequest_ran [of uid s]
      by (auto simp add: resolveMove_def Let_def Some)
  next
    case False
    show ?thesis
    proof (cases "fst (supersedeExisting opts uid (vec_x tgt) (vec_z tgt) s)")
      case True
      with False show ?thesis
        using supersedeExisting_ids [of opts uid "vec_x tgt" "vec_z tgt" s]
          supersedeExisting_ran [of opts uid "vec_x tgt" "vec_z tgt" s]
        by (auto simp add: resolveMove_def Let_def Some case_prod_beta)
    next
      case nskip: False
      have "\<exists>pf a b. s_pathfinder s = Some pf
        \<and> s_nextRequestId (snd (resolveMove cfg opts uid tgt tr mv s)) = s_nextRequestId s + 1
        \<and> s_pathfinder (snd (resolveMove cfg opts uid tgt tr mv s))
            = Some (pf\<lparr>submitted := submitted pf @ [(s_nextRequestId s, a, b)]\<rparr>)
        \<and> dom (s_pendingRequests (snd (resolveMove cfg opts uid tgt tr mv s)))
            \<subseteq> insert (s_nextRequestId s) (dom (s_pendingRequests s))
        \<and> ran (s_entityToRequest (snd (resolveMove cfg opts uid tgt tr mv s)))
            \<subseteq> insert (s_nextRequestId s) (ran (s_entityToRequest s))
        \<and> s_pendingRequests (snd (resolveMove cfg opts uid tgt tr mv s)) (s_nextRequestId s) \<noteq> None
        \<and> s_entityToRequest (snd (resolveMove cfg opts uid tgt tr mv s)) uid = Some (s_nextRequestId s)
        \<and> pathPending (fst (resolveMove cfg opts uid tgt tr mv s))
        \<and> pendingRequestId (fst (resolveMove cfg opts uid tgt tr mv s)) = s_nextRequestId s"
      proof -
        let ?s1 = "snd (supersedeExisting opts uid (vec_x tgt) (vec_z tgt) s)"
        have "ran ((s_entityToRequest ?s1)(uid \<mapsto> s_nextRequestId s))
                \<subseteq> insert (s_nextRequestId s) (ran (s_entityToRequest s))"
          using ran_upd_subset [of "s_entityToRequest ?s1" uid "s_nextRequestId s"]
            supersedeExisting_ran [of opts uid "vec_x tgt" "vec_z tgt" s] by blast
        then show ?thesis
          using False nskip supersedeExisting_ids [of opts uid "vec_x tgt" "vec_z tgt" s]
          by (auto simp add: resolveMove_def Let_def Some case_prod_beta fetch_add_def submitPathRequest_def)
      qed
      then show ?thesis by blast
    qed
  qed
qed

lemma resolveMove_idsAllocated: "idsAllocated s (snd (resolveMove cfg opts uid tgt tr mv s))"
  using resolveMove_ids [of cfg opts uid tgt tr mv s]
  by (auto intro: idsAllocated_none idsAllocated_one)

lemma putMovement_ids: "idsAllocated s (putMovement uid mv s)"
  by (rule idsAllocated_none) simp_all

lemma world_update_ids: "idsAllocated s (s\<lparr>world := w\<rparr>)"
  by (rule idsAllocated_none) simp_all

lemma matchPending_idsAllocated: "idsAllocated s (snd (matchPending opts uid tx tz mv s))"
  by (rule idsAllocated_none) (simp_all add: matchPending_dom matchPending_ran)

lemma moveUnit_idsAllocated: "idsAllocated s (moveUnit cfg opts s ut)"
proof (cases "world s (fst ut)")
  case None
  then show ?thesis by (simp add: moveUnit_def idsAllocated_refl)
next
  case e0: (Some e0)
  show ?thesis
  proof (cases "case attack (exitHoldMode e0) of Some atk \<Rightarrow> inMeleeLock atk | None \<Rightarrow> False")
    case True
    with e0 show ?thesis by (simp add: moveUnit_def Let_def world_update_ids)
  next
    case nl: False
    show ?thesis
    proof (cases "transform (exitHoldMode e0)")
      case None
      with e0 nl show ?thesis by (simp add: moveUnit_def Let_def world_update_ids)
    next
      case tr: (Some tr)
      define mv0 where "mv0 = (case movement (exitHoldMode e0) of Some m \<Rightarrow> m
                               | None \<Rightarrow> newMovementComponent cfg)"
      define s1 where "s1 = s\<lparr>world := (world s)(fst ut \<mapsto>
          (if clearAttackIntent opts
           then (exitHoldMode e0)\<lparr>movement := Some mv0, attackTarget := None\<rparr>
           else (exitHoldMode e0)\<lparr>movement := Some mv0\<rparr>))\<rparr>"
      define s2 where "s2 = snd (matchPending opts (fst ut) (vec_x (snd ut)) (vec_z (snd ut)) mv0 s1)"
      define mv1 where "mv1 = mv0\<lparr>goalX := vec_x (snd ut), goalY := vec_z (snd ut)\<rparr>"
      define r where "r = resolveMove cfg opts (fst ut) (snd ut) tr mv1 s2"
      have "idsAllocated s s1" unfolding s1_def by (rule world_update_ids)
      moreover have "idsAllocated s1 s2" unfolding s2_def by (rule matchPending_idsAllocated)
      ultimately have s2: "idsAllocated s s2" by (rule idsAllocated_trans)
      have a: "idsAllocated s (putMovement (fst ut) mv1 s2)"
        by (rule idsAllocated_trans [OF s2 putMovement_ids])
      have "idsAllocated s2 (snd r)" unfolding r_def by (rule resolveMove_idsAllocated)
      with s2 have "idsAllocated s (snd r)" by (rule idsAllocated_trans)
      then have b: "idsAllocated s (putMovement (fst ut) (fst r) (snd r))"
        by (rule idsAllocated_trans [OF _ putMovement_ids])
      have "moveUnit cfg opts s ut = putMovement (fst ut) mv1 s2
            \<or> moveUnit cfg opts s ut = putMovement (fst ut) (fst r) (snd r)"
        using e0 nl tr
        by (simp add: moveUnit_def Let_def case_prod_beta s1_def s2_def mv1_def r_def mv0_def)
      with a b show ?thesis by auto
    qed
  qed
qed

lemma moveUnitsLoop_idsAllocated: "idsAllocated s (moveUnitsLoop cfg opts units targets s)"
  unfolding moveUnitsLoop_def by (rule foldl_idsAllocated) (rule moveUnit_idsAllocated)

lemma updMovement_ids: "idsAllocated s (updMovement uid f s)"
  by (rule idsAllocated_none) simp_all

lemma resetMember_ids: "idsAllocated s (resetMember s m)"
  unfolding resetMember_def
  by (rule idsAllocated_trans [OF clearPendingRequest_ids updMovement_ids])

lemma foldl_resetMember_dom:
  "dom (s_pendingRequests (foldl resetMember s ms)) \<subseteq> dom (s_pendingRequests s)"
proof (induction ms arbitrary: s)
  case Nil
  show ?case by simp
next
  case (Cons m ms)
  have "dom (s_pendingRequests (resetMember s m)) \<subseteq> dom (s_pendingRequests s)"
    by (simp add: resetMember_def clearPendingRequest_dom)
  with Cons [of "resetMember s m"] show ?case by auto
qed

lemma foldl_resetMember_ran:
  "ran (s_entityToRequest (foldl resetMember s ms)) \<subseteq> ran (s_entityToRequest s)"
proof (induction ms arbitrary: s)
  case Nil
  show ?case by simp
next
  case (Cons m ms)
  have "ran (s_entityToRequest (resetMember s m)) \<subseteq> ran (s_entityToRequest s)"
    by (simp add: resetMember_def clearPendingRequest_ran)
  with Cons [of "resetMember s m"] show ?case by auto
qed

text \<open>The allocation site of the group resolver.\<close>

lemma formationMove_idsAllocated: "idsAllocated s (formationMove cfg opts members s)"
proof -
  let ?s1 = "foldl resetMember s members"
  have r: "idsAllocated s ?s1"
    by (rule idsAllocated_none) (simp_all add: foldl_resetMember_dom foldl_resetMember_ran)
  have d: "idsAllocated ?s1 (foldl directToTarget ?s1 members)"
    by (rule foldl_idsAllocated) (simp add: directToTarget_def updMovement_ids)
  have dp: "idsAllocated ?s1 (foldl directPathToTarget ?s1 members)"
    by (rule foldl_idsAllocated) (simp add: directPathToTarget_def updMovement_ids)
  have "idsAllocated ?s1 (formationMove cfg opts members s)"
  proof (cases "s_pathfinder ?s1")
    case None
    with d show ?thesis by (simp add: formationMove_def Let_def)
  next
    case (Some pf)
    let ?leader = "members ! leader_index members"
    let ?startp = "worldToGrid (Some pf) (vec_x (m_position ?leader)) (vec_z (m_position ?leader))"
    let ?endp = "worldToGrid (Some pf) (vec_x (m_target ?leader)) (vec_z (m_target ?leader))"
    show ?thesis
    proof (cases "?startp = ?endp")
      case True
      with d Some show ?thesis by (simp add: formationMove_def Let_def)
    next
      case ne: False
      show ?thesis
      proof (cases "manhattan ?startp ?endp \<le> DIRECT_PATH_THRESHOLD cfg \<and> allowDirectFallback opts")
        case True
        with dp Some ne show ?thesis by (simp add: formationMove_def Let_def)
      next
        case nd: False
        have pfs: "s_pathfinder s = Some pf" using Some by simp
        note fm = formationMove_request [OF pfs refl refl refl ne nd]
        show ?thesis
        proof (rule idsAllocated_one [OF Some, where a = ?startp and b = ?endp])
          show "s_nextRequestId (formationMove cfg opts members s) = s_nextRequestId ?s1 + 1"
            by (simp add: fm)
          show "s_pathfinder (formationMove cfg opts members s)
                  = Some (pf\<lparr>submitted := submitted pf @ [(s_nextRequestId ?s1, ?startp, ?endp)]\<rparr>)"
            by (simp add: fm)
          show "dom (s_pendingRequests (formationMove cfg opts members s))
                  \<subseteq> insert (s_nextRequestId ?s1) (dom (s_pendingRequests ?s1))"
            by (auto simp add: fm)
          show "ran (s_entityToRequest (formationMove cfg opts members s))
                  \<subseteq> insert (s_nextRequestId ?s1) (ran (s_entityToRequest ?s1))"
            using foldl_entries_ran [of "s_nextRequestId s" "s_entityToRequest ?s1" members]
            by (simp add: fm)
        qed
      qed
    qed
  qed
  with r show ?thesis by (rule idsAllocated_trans)
qed

lemma buildMembers_ids: "idsAllocated s (fst (buildMembers cfg opts units targets s))"
  using buildMembers_inv [of cfg s opts units targets]
  by (intro idsAllocated_none) (simp_all add: buildInv_def)

lemma groupAdvance_idsAllocated: "idsAllocated s (groupAdvance cfg opts moving s)"
proof -
  let ?members = "withDistances moving"
  let ?dopts = "opts\<lparr>groupMove := False\<rparr>"
  let ?direct = "filter (advances ?members) ?members"
  let ?regroup = "filter (\<lambda>m. \<not> advances ?members m) ?members"
  let ?s1 = "if ?direct \<noteq> [] then moveUnitsLoop cfg ?dopts (map m_id ?direct) (map m_target ?direct) s else s"
  have s1: "idsAllocated s ?s1"
    by (simp add: moveUnitsLoop_idsAllocated idsAllocated_refl)
  have rest: "idsAllocated t
      (if length ?regroup \<le> 1
       then (case ?regroup of [] \<Rightarrow> t
             | m # rest \<Rightarrow> moveUnitsLoop cfg ?dopts [m_id m] [m_target m] t)
       else formationMove cfg opts ?regroup t)" for t
    by (cases ?regroup)
       (simp_all add: idsAllocated_refl moveUnitsLoop_idsAllocated formationMove_idsAllocated)
  show ?thesis
  proof (cases "foldl max 0 (map m_distanceToTarget ?members) \<le> near_threshold_of ?members")
    case True
    then show ?thesis
      by (simp add: groupAdvance_def Let_def moveUnitsLoop_idsAllocated)
  next
    case False
    have "groupAdvance cfg opts moving s =
      (if length ?regroup \<le> 1
       then (case ?regroup of [] \<Rightarrow> ?s1
             | m # rest \<Rightarrow> moveUnitsLoop cfg ?dopts [m_id m] [m_target m] ?s1)
       else formationMove cfg opts ?regroup ?s1)"
      using False unfolding groupAdvance_def Let_def by (simp only: if_False)
    then show ?thesis
      using idsAllocated_trans [OF s1 rest [of ?s1]] by simp
  qed
qed

lemma moveGroup_idsAllocated: "idsAllocated s (moveGroup cfg opts units targets s)"
proof -
  obtain s0 members where b: "buildMembers cfg opts units targets s = (s0, members)"
    by (cases "buildMembers cfg opts units targets s")
  from buildMembers_ids [of s cfg opts units targets] b have s0: "idsAllocated s s0" by simp
  have "idsAllocated s0 (moveGroup cfg opts units targets s)"
    by (simp add: moveGroup_def b Let_def idsAllocated_refl moveUnitsLoop_idsAllocated
          groupAdvance_idsAllocated split: list.splits option.splits)
  with s0 show ?thesis by (rule idsAllocated_trans)
qed

lemma moveUnits_idsAllocated: "idsAllocated s (moveUnits cfg opts units targets s)"
  by (simp add: moveUnits_def idsAllocated_refl moveGroup_idsAllocated moveUnitsLoop_idsAllocated)

lemma processResult_ids: "idsAllocated s (processResult cfg s r)"
proof (rule idsAllocated_none)
  show "ran (s_entityToRequest (processResult cfg s r)) \<subseteq> ran (s_entityToRequest s)"
    by (simp add: processResult_def eraseMembers_ran del: eraseMembers.simps split: option.splits)
qed (auto simp add: processResult_def split: option.splits if_splits)

lemma processPathResults_idsAllocated: "idsAllocated s (processPathResults cfg results s)"
proof (cases "s_pathfinder s")
  case None
  then show ?thesis by (simp add: processPathResults_def idsAllocated_refl)
next
  case (Some pf)
  have "idsAllocated s (foldl (processResult cfg) s results)"
    by (rule foldl_idsAllocated) (rule processResult_ids)
  with Some show ?thesis by (simp add: processPathResults_def)
qed

lemma attackUnit_idsAllocated: "idsAllocated s (attackUnit cfg tid chase s uid)"
proof -
  have "idsAllocated s ((moveUnits cfg opts [uid] [p] (s\<lparr>world := w\<rparr>))\<lparr>world := w'\<rparr>)" for opts p w w'
    by (blast intro: idsAllocated_trans world_update_ids moveUnits_idsAllocated)
  moreover have "idsAllocated s (moveUnits cfg opts [uid] [p] (s\<lparr>world := w\<rparr>))" for opts p w
    by (blast intro: idsAllocated_trans world_update_ids moveUnits_idsAllocated)
  ultimately show ?thesis
    by (simp add: attackUnit_def Let_def idsAllocated_refl world_update_ids split: option.splits)
qed

lemma attack_target_idsAllocated: "idsAllocated s (attack_target cfg units tid chase s)"
proof (cases "tid = 0")
  case True
  then show ?thesis by (simp add: attack_target_def idsAllocated_refl)
next
  case False
  have "idsAllocated s (foldl (attackUnit cfg tid chase) s units)"
    by (rule foldl_idsAllocated) (rule attackUnit_idsAllocated)
  with False show ?thesis by (simp add: attack_target_def)
qed

lemma epochInv_initialize: "epochInv (initialize walk w h s)"
  unfolding epochInv_def by (rule exI [of _ 0]) (simp add: initialize_def submittedIds_def)

lemma epochInv_startUp: "epochInv (startUp wld)"
  unfolding epochInv_def by (rule exI [of _ 0]) (simp add: startUp_def submittedIds_def)

lemma epochInv_step: "epochInv s \<Longrightarrow> idsAllocated s s' \<Longrightarrow> epochInv s'"
proof -
  assume "epochInv s" and "idsAllocated s s'"
  then obtain j k where j: "s_nextRequestId s = snd (allocations j 1)"
      "submittedIds s = fst (allocations j 1)" "dom (s_pendingRequests s) \<subseteq> set (submittedIds s)"
      "ran (s_entityToRequest s) \<subseteq> set (submittedIds s)"
    and k: "s_nextRequestId s' = snd (allocations k (s_nextRequestId s))"
      "submittedIds s' = submittedIds s @ fst (allocations k (s_nextRequestId s))"
      "dom (s_pendingRequests s') \<subseteq> dom (s_pendingRequests s) \<union> set (fst (allocations k (s_nextRequestId s)))"
      "ran (s_entityToRequest s') \<subseteq> ran (s_entityToRequest s) \<union> set (fst (allocations k (s_nextRequestId s)))"
    unfolding epochInv_def idsAllocated_def by blast
  show "epochInv s'"
    unfolding epochInv_def
  proof (intro exI [of _ "j + k"] conjI)
    show "s_nextRequestId s' = snd (allocations (j + k) 1)"
      by (simp add: allocations_add k(1) j(1))
    show "submittedIds s' = fst (allocations (j + k) 1)"
      by (simp add: allocations_add k(2) j(1,2))
    show "dom (s_pendingRequests s') \<subseteq> set (submittedIds s')"
      using k(3) j(3) by (auto simp add: k(2))
    show "ran (s_entityToRequest s') \<subseteq> set (submittedIds s')"
      using k(4) j(4) by (auto simp add: k(2))
  qed
qed

lemma runCommand_epochInv: "epochInv s \<Longrightarrow> epochInv (runCommand cfg s c)"
proof (cases c)
  case (MoveUnits opts units targets)
  assume "epochInv s"
  then show ?thesis unfolding MoveUnits runCommand.simps
    by (rule epochInv_step) (rule moveUnits_idsAllocated)
next
  case (AttackTarget units tid chase)
  assume "epochInv s"
  then show ?thesis unfolding AttackTarget runCommand.simps
    by (rule epochInv_step) (rule attack_target_idsAllocated)
next
  case (ProcessPathResults results)
  assume "epochInv s"
  then show ?thesis unfolding ProcessPathResults runCommand.simps
    by (rule epochInv_step) (rule processPathResults_idsAllocated)
next
  case (ClearPendingRequest eid)
  assume "epochInv s"
  then show ?thesis unfolding ClearPendingRequest runCommand.simps
    by (rule epochInv_step) (rule clearPendingRequest_ids)
next
  case (Initialize walk w h)
  show ?thesis unfolding Initialize runCommand.simps by (rule epochInv_initialize)
next
  case (WorldChange wld)
  assume "epochInv s"
  then show ?thesis unfolding WorldChange runCommand.simps
    by (rule epochInv_step) (rule world_update_ids)
qed

lemma runCommands_epochInv: "epochInv s \<Longrightarrow> epochInv (runCommands cfg cmds s)"
  unfolding runCommands_def
  by (rule foldl_invariant [where I = epochInv]) (simp_all add: runCommand_epochInv)

text \<open>
  Claim C10, as the code has it. Start from the state of the service at program start, or
  call \<open>initialize\<close> on any state, and then run any sequence of the operations of the service
  (and of changes of the world). In the state reached, the ids submitted to the
  pathfinding engine since the start or the last \<open>initialize\<close> are exactly the values that
  successive calls of \<^verbatim>\<open>fetch_add\<close> return from the counter value 1, one call for each
  submitted request, and the counter is what these calls leave. As long as fewer than
  \<open>2^64\<close> requests were submitted, these ids differ from the sentinel 0 and from each
  other, and every key of the ledger and every request id of the entity-to-request map is
  one of them, hence nonzero too.
\<close>

theorem request_ids_allocated_nonzero_distinct:
  assumes "s0 = startUp wld \<or> s0 = initialize walk w h s"
    and "s' = runCommands cfg cmds s0"
    and "length (submittedIds s') < 2 ^ 64"
  shows "submittedIds s' = fst (allocations (length (submittedIds s')) 1)
       \<and> s_nextRequestId s' = snd (allocations (length (submittedIds s')) 1)
       \<and> 0 \<notin> set (submittedIds s') \<and> distinct (submittedIds s')
       \<and> dom (s_pendingRequests s') \<subseteq> set (submittedIds s')
       \<and> ran (s_entityToRequest s') \<subseteq> set (submittedIds s')
       \<and> 0 \<notin> dom (s_pendingRequests s') \<and> 0 \<notin> ran (s_entityToRequest s')"
proof -
  from assms(1) have "epochInv s0"
    by (auto simp add: epochInv_startUp epochInv_initialize)
  then have "epochInv s'"
    unfolding assms(2) by (rule runCommands_epochInv)
  then obtain k where k: "s_nextRequestId s' = snd (allocations k 1)"
    "submittedIds s' = fst (allocations k 1)" "dom (s_pendingRequests s') \<subseteq> set (submittedIds s')"
    "ran (s_entityToRequest s') \<subseteq> set (submittedIds s')"
    unfolding epochInv_def by blast
  from k(2) have len: "length (submittedIds s') = k" by simp
  with assms(3) have "k < 2 ^ 64" by simp
  then have nz: "0 \<notin> set (fst (allocations k 1))" and di: "distinct (fst (allocations k 1))"
    by (rule allocations_nonzero_distinct)+
  from k nz di len show ?thesis by auto
qed

text \<open>
  After \<open>initialize\<close> for a world of 50 by 50 cells, unit 7 at the origin is sent to (20, 0)
  and then to (0, 20): requests 1 and 2 are submitted, the second supersedes the first.
\<close>

lemma cround_half: "cround (49 / 2) = 25" "cround (89 / 2) = 45"
  by (simp_all add: cround_def)

lemma exampleCommands_first:
  "moveUnits exampleConfig exampleOptions [7] [QVector3D 20 0 0]
     (initialize (\<lambda>cx cz. True) 50 50 freeUnit)
   = \<lparr>world = [7 \<mapsto> plainUnit 0 0 (idleMovement\<lparr>goalX := 20, pathPending := True,
                    pendingRequestId := 1, timeSinceLastPathRequest := 0, lastGoalX := 20\<rparr>)],
      s_pathfinder = Some \<lparr>gridOffsetX = - (49 / 2), gridOffsetZ = - (49 / 2),
                            isWalkable = (\<lambda>cx cz. True),
                            submitted = [(1, \<lparr>pt_x = 25, pt_y = 25\<rparr>, \<lparr>pt_x = 45, pt_y = 25\<rparr>)]\<rparr>,
      s_pendingRequests = [1 \<mapsto> \<lparr>entity_id = 7, target = QVector3D 20 0 0, options = exampleOptions,
                                  groupMembers = [], groupTargets = []\<rparr>],
      s_entityToRequest = [7 \<mapsto> 1],
      s_nextRequestId = 2\<rparr>"
  by (simp add: initialize_def freeUnit_def example_defs moveUnit_eval cround_half)

lemma exampleCommands_run:
  "submittedIds (runCommands exampleConfig exampleCommands (initialize (\<lambda>cx cz. True) 50 50 freeUnit))
     = [1, 2]"
  "s_nextRequestId (runCommands exampleConfig exampleCommands (initialize (\<lambda>cx cz. True) 50 50 freeUnit))
     = 3"
  "s_pendingRequests (runCommands exampleConfig exampleCommands (initialize (\<lambda>cx cz. True) 50 50 freeUnit))
     = [2 \<mapsto> \<lparr>entity_id = 7, target = QVector3D 0 0 20, options = exampleOptions,
                groupMembers = [], groupTargets = []\<rparr>]"
  "s_entityToRequest (runCommands exampleConfig exampleCommands (initialize (\<lambda>cx cz. True) 50 50 freeUnit))
     = [7 \<mapsto> 2]"
  unfolding runCommands_def exampleCommands_def foldl_Cons foldl_Nil runCommand.simps exampleCommands_first
  by (simp_all add: example_defs moveUnit_eval cround_half submittedIds_def)

theorem request_ids_allocated_nonzero_distinct_witness:
  "length (submittedIds (runCommands exampleConfig exampleCommands
             (initialize (\<lambda>cx cz. True) 50 50 freeUnit))) < 2 ^ 64
   \<and> submittedIds (runCommands exampleConfig exampleCommands
             (initialize (\<lambda>cx cz. True) 50 50 freeUnit)) = [1, 2]
   \<and> s_nextRequestId (runCommands exampleConfig exampleCommands
             (initialize (\<lambda>cx cz. True) 50 50 freeUnit)) = 3
   \<and> dom (s_pendingRequests (runCommands exampleConfig exampleCommands
             (initialize (\<lambda>cx cz. True) 50 50 freeUnit))) = {2}
   \<and> ran (s_entityToRequest (runCommands exampleConfig exampleCommands
             (initialize (\<lambda>cx cz. True) 50 50 freeUnit))) = {2}
   \<and> 0 \<notin> set (submittedIds (runCommands exampleConfig exampleCommands
             (initialize (\<lambda>cx cz. True) 50 50 freeUnit)))
   \<and> distinct (submittedIds (runCommands exampleConfig exampleCommands
             (initialize (\<lambda>cx cz. True) 50 50 freeUnit)))"
proof -
  let ?s = "runCommands exampleConfig exampleCommands (initialize (\<lambda>cx cz. True) 50 50 freeUnit)"
  have h: "length (submittedIds ?s) < 2 ^ 64" by (simp add: exampleCommands_run)
  from request_ids_allocated_nonzero_distinct [OF disjI2 [OF refl] refl h] h show ?thesis
    by (simp add: exampleCommands_run fetch_add_def)
qed

text \<open>
  The claim as stated, without the bound, fails. The counter is a 64-bit word:
  \<open>2^64 - 1\<close> allocations after \<open>initialize\<close> it is 0, so allocation number \<open>2^64\<close> returns the
  sentinel. With the counter at 0 a move of unit 7 registers request 0 in the ledger,
  submits it to the engine and marks the unit as pending with \<open>pendingRequestId\<close> 0, the
  value that means that no request is pending.
\<close>

theorem request_id_zero_after_wrap:
  "snd (allocations (2 ^ 64 - 1) 1) = 0
   \<and> 0 \<in> set (fst (allocations (2 ^ 64) 1))
   \<and> s_entityToRequest
        (moveUnits exampleConfig exampleOptions [7] [QVector3D 30 0 0] (freeUnit\<lparr>s_nextRequestId := 0\<rparr>)) 7
       = Some 0
   \<and> s_pendingRequests
        (moveUnits exampleConfig exampleOptions [7] [QVector3D 30 0 0] (freeUnit\<lparr>s_nextRequestId := 0\<rparr>)) 0
       = Some \<lparr>entity_id = 7, target = QVector3D 30 0 0, options = exampleOptions,
               groupMembers = [], groupTargets = []\<rparr>
   \<and> submittedIds
        (moveUnits exampleConfig exampleOptions [7] [QVector3D 30 0 0] (freeUnit\<lparr>s_nextRequestId := 0\<rparr>))
       = [0]
   \<and> world (moveUnits exampleConfig exampleOptions [7] [QVector3D 30 0 0] (freeUnit\<lparr>s_nextRequestId := 0\<rparr>)) 7
       = Some (plainUnit 0 0 (idleMovement\<lparr>goalX := 30, pathPending := True, pendingRequestId := 0,
                                timeSinceLastPathRequest := 0, lastGoalX := 30\<rparr>))"
proof -
  have "(1 :: 64 word) + word_of_nat (2 ^ 64 - 1) = 0" by simp
  moreover have "(2 ^ 64 - 1 :: nat) \<in> set [0..<2 ^ 64]" by simp
  ultimately have a: "0 \<in> set (fst (allocations (2 ^ 64) 1))"
    unfolding allocations_eq fst_conv set_map by (metis (no_types, lifting) image_eqI)
  have b: "snd (allocations (2 ^ 64 - 1) 1) = 0"
    by (simp add: allocations_eq)
  from a b show ?thesis
    by (simp add: freeUnit_def example_defs moveUnit_eval submittedIds_def)
qed

end
